theory Spec2Isabelle
  imports Main "HOL-Library.Multiset"
begin

section \<open>JavaScript values and the two primitives the handlers apply to them\<close>

text \<open>
  The server is an Express application in front of one SQLite table. Its handlers
  destructure \<^verbatim>\<open>req.body\<close>, test the four fields with \<^verbatim>\<open>!\<close>, coerce the
  age with \<^verbatim>\<open>parseInt(age, 10)\<close> and run one or two SQL statements.

  A field of the parsed JSON body is a scalar: absent (\<^verbatim>\<open>undefined\<close> after
  destructuring), \<^verbatim>\<open>null\<close>, a boolean, a number or a string. \<open>JNum n\<close> is the
  number whose value is the integer \<open>n\<close>; strings are lists of 8-bit code units.
  Fractions, characters above U+00FF, arrays and nested objects are outside this model.
\<close>

datatype jsval = JUndefined | JNull | JBool bool | JNum int | JStr string

text \<open>\<^verbatim>\<open>!v\<close> is \<open>\<not> truthy v\<close>: ECMAScript ToBoolean.\<close>

fun truthy :: "jsval \<Rightarrow> bool" where
  "truthy JUndefined = False"
| "truthy JNull = False"
| "truthy (JBool b) = b"
| "truthy (JNum n) = (n \<noteq> 0)"
| "truthy (JStr s) = (s \<noteq> [])"

text \<open>
  A JavaScript number is an IEEE double. Up to \<^verbatim>\<open>Number.MAX_SAFE_INTEGER\<close> in
  magnitude every integer is a double and arithmetic on it is exact. The driver binds
  a number that survives the conversion to a 32-bit integer as an SQLite integer, and
  every other number as a double.
\<close>

definition safe_integer :: "int \<Rightarrow> bool" where
  "safe_integer n = (\<bar>n\<bar> \<le> 9007199254740991)"

definition int32 :: "int \<Rightarrow> bool" where
  "int32 n = (- 2147483648 \<le> n \<and> n \<le> 2147483647)"

text \<open>
  What the JavaScript engine and SQLite do with numbers beyond those ranges is theirs,
  not this repository's, and is a parameter of the model: the text \<^verbatim>\<open>ToString\<close>
  gives a number beyond the safe range (shortest round-trip digits, exponent form from
  1e21), and the text SQLite stores in a TEXT column for a number bound as a double.
  Everything proved below holds for every such platform.
\<close>

record platform =
  number_string :: "int \<Rightarrow> string"
  real_text :: "int \<Rightarrow> string"

definition digit_char :: "nat \<Rightarrow> char" where
  "digit_char d = ''0123456789'' ! d"

fun show_nat :: "nat \<Rightarrow> string" where
  "show_nat n = (if n < 10 then [digit_char n] else show_nat (n div 10) @ [digit_char (n mod 10)])"

declare show_nat.simps [simp del]

definition show_int :: "int \<Rightarrow> string" where
  "show_int i = (if i < 0 then CHR ''-'' # show_nat (nat (- i)) else show_nat (nat i))"

text \<open>
  ECMAScript ToString, which \<^verbatim>\<open>parseInt\<close> applies to its argument first. A safe
  integer is its decimal numeral.
\<close>

fun to_string :: "platform \<Rightarrow> jsval \<Rightarrow> string" where
  "to_string pf JUndefined = ''undefined''"
| "to_string pf JNull = ''null''"
| "to_string pf (JBool b) = (if b then ''true'' else ''false'')"
| "to_string pf (JNum n) = (if safe_integer n then show_int n else number_string pf n)"
| "to_string pf (JStr s) = s"

text \<open>
  White space that \<^verbatim>\<open>parseInt\<close> strips (StrWhiteSpaceChar, restricted to code units
  below 256): TAB, LF, VT, FF, CR, SP and NBSP.
\<close>

definition is_space :: "char \<Rightarrow> bool" where
  "is_space c = ((of_char c :: nat) \<in> {9, 10, 11, 12, 13, 32, 160})"

definition is_digit :: "char \<Rightarrow> bool" where
  "is_digit c = (c \<in> set ''0123456789'')"

definition digit_val :: "char \<Rightarrow> nat" where
  "digit_val c = (of_char c :: nat) - 48"

definition digits_val :: "string \<Rightarrow> nat" where
  "digits_val ds = foldl (\<lambda>acc c. 10 * acc + digit_val c) 0 ds"

text \<open>
  The number \<^verbatim>\<open>parseInt\<close> returns for a numeral of value \<open>n\<close>: \<open>Exact n\<close>, the
  integer itself, when it is a safe integer; otherwise \<open>Rounded n\<close>, the double the
  engine rounds it to (possibly \<^verbatim>\<open>Infinity\<close>), whose value this model does not
  compute.
\<close>

datatype number = Exact int | Rounded int

definition number_of :: "int \<Rightarrow> number" where
  "number_of n = (if safe_integer n then Exact n else Rounded n)"

text \<open>
  \<^verbatim>\<open>parseInt(string, 10)\<close> on a string: strip leading white space, read an optional
  sign, take the longest prefix of decimal digits; no digit gives NaN (\<open>None\<close>).
\<close>

definition parseInt_str :: "string \<Rightarrow> number option" where
  "parseInt_str s =
     (let t = dropWhile is_space s;
          (sign, u) = (case t of
                         c # r \<Rightarrow> if c = CHR ''-'' then (- 1, r)
                                  else if c = CHR ''+'' then (1, r) else (1, t)
                       | [] \<Rightarrow> (1 :: int, t));
          ds = takeWhile is_digit u
      in if ds = [] then None else Some (number_of (sign * int (digits_val ds))))"

definition parseInt :: "platform \<Rightarrow> jsval \<Rightarrow> number option" where
  "parseInt pf v = parseInt_str (to_string pf v)"

section \<open>The table \<^verbatim>\<open>student_details\<close> and the driver calls\<close>

text \<open>
  \<^verbatim>\<open>
  CREATE TABLE IF NOT EXISTS student_details (
    id INTEGER PRIMARY KEY AUTOINCREMENT,
    name TEXT NOT NULL, email TEXT NOT NULL, age INTEGER NOT NULL, gender TEXT NOT NULL,
    created_at TIMESTAMP DEFAULT CURRENT_TIMESTAMP)
  \<close>
  A row is a record; the column \<^verbatim>\<open>id\<close> is \<open>id_col\<close>. The age column holds the
  number that was bound (an integer, or a real when the double is beyond 64 bits) and
  the driver reads the same number back. The state holds the rows, the AUTOINCREMENT
  counter SQLite keeps in \<^verbatim>\<open>sqlite_sequence\<close>, and the calls of
  \<^verbatim>\<open>console.error\<close>: each is the pair of its first argument, a text, and the
  message of the \<^verbatim>\<open>Error\<close> that is its second argument. How the console renders
  the error (name, stack, errno, code) is not modelled.
\<close>

record student =
  id_col :: int
  name :: string
  email :: string
  age :: number
  gender :: string
  created_at :: string

record state =
  student_details :: "student list"
  sqlite_sequence :: int
  console :: "(string \<times> string) list"

text \<open>
  Every driver call returns a promise. \<open>Inl m\<close> is a rejection with an
  \<^verbatim>\<open>Error\<close> whose message is \<open>m\<close>; \<open>Inr\<close> is the resolved value. A call can be
  rejected for reasons outside the program (I/O error, locked file): the environment
  hands each call a \<open>fault\<close>, \<open>Some m\<close> to make it fail with message \<open>m\<close>.
\<close>

type_synonym fault = "string option"

definition fault_at :: "fault list \<Rightarrow> nat \<Rightarrow> fault" where
  "fault_at fs i = (if i < length fs then fs ! i else None)"

text \<open>
  What a bound parameter stores in a TEXT column: a string as it is; a number bound as
  an integer in its decimal text form; a number bound as a double in the text form
  SQLite gives a real; a boolean as the text of 1 or 0 (the driver binds it as an
  integer); \<^verbatim>\<open>null\<close> and an unbound parameter as NULL (\<open>None\<close>).
\<close>

fun text_column :: "platform \<Rightarrow> jsval \<Rightarrow> string option" where
  "text_column pf (JStr s) = Some s"
| "text_column pf (JNum n) = Some (if int32 n then show_int n else real_text pf n)"
| "text_column pf (JBool b) = Some (if b then ''1'' else ''0'')"
| "text_column pf JNull = None"
| "text_column pf JUndefined = None"

definition MAX_ROWID :: int where
  "MAX_ROWID = 9223372036854775807"

text \<open>
  The rowid SQLite picks for a table declared AUTOINCREMENT: one more than the last
  rowid of the table (1 for an empty table), raised to one more than the counter of
  \<^verbatim>\<open>sqlite_sequence\<close>; \<open>None\<close> (SQLITE_FULL) once either has reached the
  largest 64-bit rowid.
\<close>

definition last_rowid :: "student list \<Rightarrow> int option" where
  "last_rowid rows = (case rows of [] \<Rightarrow> None | r # rs \<Rightarrow> Some (fold max (map id_col rs) (id_col r)))"

definition new_rowid :: "state \<Rightarrow> int option" where
  "new_rowid s =
     (case last_rowid (student_details s) of
        None \<Rightarrow>
          if sqlite_sequence s \<ge> MAX_ROWID then None
          else Some (max 1 (sqlite_sequence s + 1))
      | Some v \<Rightarrow>
          if v \<ge> MAX_ROWID \<or> sqlite_sequence s \<ge> MAX_ROWID then None
          else Some (max (v + 1) (sqlite_sequence s + 1)))"

definition not_null_failed :: "string \<Rightarrow> string" where
  "not_null_failed col = ''SQLITE_CONSTRAINT: NOT NULL constraint failed: student_details.'' @ col"

text \<open>
  \<^verbatim>\<open>db.run('INSERT INTO student_details (name, email, age, gender) VALUES (?, ?, ?, ?)',
         [name, email, parseInt(age, 10), gender])\<close>
  NaN is bound as NULL. \<open>created_at\<close> takes the clock's CURRENT_TIMESTAMP, \<open>now\<close>.
  The result is \<^verbatim>\<open>lastID\<close>. A statement that fails changes nothing.
\<close>

definition run_insert ::
  "platform \<Rightarrow> jsval \<Rightarrow> jsval \<Rightarrow> number option \<Rightarrow> jsval \<Rightarrow> string \<Rightarrow> fault \<Rightarrow> state
     \<Rightarrow> string + (int \<times> state)" where
  "run_insert pf n e a g now f s =
     (case f of
        Some m \<Rightarrow> Inl m
      | None \<Rightarrow>
          (case new_rowid s of
             None \<Rightarrow> Inl ''SQLITE_FULL: database or disk is full''
           | Some k \<Rightarrow>
               (case text_column pf n of
                  None \<Rightarrow> Inl (not_null_failed ''name'')
                | Some n' \<Rightarrow>
                (case text_column pf e of
                  None \<Rightarrow> Inl (not_null_failed ''email'')
                | Some e' \<Rightarrow>
                (case a of
                  None \<Rightarrow> Inl (not_null_failed ''age'')
                | Some a' \<Rightarrow>
                (case text_column pf g of
                  None \<Rightarrow> Inl (not_null_failed ''gender'')
                | Some g' \<Rightarrow>
                    Inr (k,
                         s\<lparr>student_details := student_details s @
                              [\<lparr>id_col = k, name = n', email = e', age = a',
                                gender = g', created_at = now\<rparr>],
                           sqlite_sequence := k\<rparr>)))))))"

text \<open>
  \<^verbatim>\<open>db.get('SELECT * FROM student_details WHERE id = ?', result.lastID)\<close>: the
  parameter is a number; the first matching row or \<^verbatim>\<open>undefined\<close>.
\<close>

definition get_by_rowid :: "int \<Rightarrow> fault \<Rightarrow> state \<Rightarrow> string + student option" where
  "get_by_rowid k f s =
     (case f of
        Some m \<Rightarrow> Inl m
      | None \<Rightarrow> Inr (find (\<lambda>r. id_col r = k) (student_details s)))"

text \<open>
  In the other statements the parameter of \<^verbatim>\<open>WHERE id = ?\<close> is the route's
  \<^verbatim>\<open>req.params.id\<close>, a string. SQLite compares it with the integer column under
  numeric affinity: the text either reads as an integer, and then equals exactly the
  rows with that id, or equals no row. That reading is SQLite's, not this
  repository's; the statements take it as the parameter \<open>num\<close>, and everything proved
  below holds for every such reading. \<open>decimal_id\<close> is the reading on plain decimal
  numerals, used for the examples.
\<close>

type_synonym affinity = "string \<Rightarrow> int option"

definition decimal_id :: affinity where
  "decimal_id t = (if t \<noteq> [] \<and> list_all is_digit t then Some (int (digits_val t)) else None)"

definition matches :: "affinity \<Rightarrow> string \<Rightarrow> student \<Rightarrow> bool" where
  "matches num t r = (num t = Some (id_col r))"

text \<open>\<^verbatim>\<open>db.get('SELECT * FROM student_details WHERE id = ?', id)\<close>\<close>

definition get_by_id :: "affinity \<Rightarrow> string \<Rightarrow> fault \<Rightarrow> state \<Rightarrow> string + student option" where
  "get_by_id num t f s =
     (case f of
        Some m \<Rightarrow> Inl m
      | None \<Rightarrow> Inr (find (matches num t) (student_details s)))"

text \<open>\<^verbatim>\<open>db.all('SELECT * FROM student_details ORDER BY id DESC')\<close>\<close>

definition all_by_id_desc :: "fault \<Rightarrow> state \<Rightarrow> string + student list" where
  "all_by_id_desc f s =
     (case f of
        Some m \<Rightarrow> Inl m
      | None \<Rightarrow> Inr (rev (sort_key id_col (student_details s))))"

text \<open>
  \<^verbatim>\<open>db.run('UPDATE student_details SET name = ?, email = ?, age = ?, gender = ? WHERE id = ?',
         [name, email, parseInt(age, 10), gender, id])\<close>
  The NOT NULL constraints are checked on the rows the statement changes, so a NULL
  for a row that does not exist is no error. The result is \<^verbatim>\<open>changes\<close>.
\<close>

definition run_update ::
  "affinity \<Rightarrow> platform \<Rightarrow> jsval \<Rightarrow> jsval \<Rightarrow> number option \<Rightarrow> jsval \<Rightarrow> string \<Rightarrow> fault \<Rightarrow> state
     \<Rightarrow> string + (nat \<times> state)" where
  "run_update num pf n e a g t f s =
     (case f of
        Some m \<Rightarrow> Inl m
      | None \<Rightarrow>
          if \<not> list_ex (matches num t) (student_details s) then Inr (0, s)
          else (case text_column pf n of
                  None \<Rightarrow> Inl (not_null_failed ''name'')
                | Some n' \<Rightarrow>
                (case text_column pf e of
                  None \<Rightarrow> Inl (not_null_failed ''email'')
                | Some e' \<Rightarrow>
                (case a of
                  None \<Rightarrow> Inl (not_null_failed ''age'')
                | Some a' \<Rightarrow>
                (case text_column pf g of
                  None \<Rightarrow> Inl (not_null_failed ''gender'')
                | Some g' \<Rightarrow>
                    Inr (length (filter (matches num t) (student_details s)),
                         s\<lparr>student_details :=
                              map (\<lambda>r. if matches num t r
                                        then r\<lparr>name := n', email := e', age := a', gender := g'\<rparr>
                                        else r)
                                  (student_details s)\<rparr>))))))"

text \<open>\<^verbatim>\<open>db.run('DELETE FROM student_details WHERE id = ?', id)\<close>\<close>

definition run_delete :: "affinity \<Rightarrow> string \<Rightarrow> fault \<Rightarrow> state \<Rightarrow> string + state" where
  "run_delete num t f s =
     (case f of
        Some m \<Rightarrow> Inl m
      | None \<Rightarrow> Inr (s\<lparr>student_details := filter (\<lambda>r. \<not> matches num t r) (student_details s)\<rparr>))"

text \<open>\<^verbatim>\<open>db.get('SELECT COUNT(*) as count FROM student_details')\<close>\<close>

definition get_count :: "fault \<Rightarrow> state \<Rightarrow> string + nat" where
  "get_count f s =
     (case f of
        Some m \<Rightarrow> Inl m
      | None \<Rightarrow> Inr (length (student_details s)))"

section \<open>Requests, responses and the route handlers\<close>

text \<open>
  \<^verbatim>\<open>req.body\<close> is the parsed JSON object, a finite map from property names to
  values; destructuring a property the object lacks gives \<^verbatim>\<open>undefined\<close>.
\<close>

type_synonym req_body = "string \<rightharpoonup> jsval"

definition field :: "req_body \<Rightarrow> string \<Rightarrow> jsval" where
  "field b k = (case b k of None \<Rightarrow> JUndefined | Some v \<Rightarrow> v)"

text \<open>
  What is handed to \<^verbatim>\<open>res.json\<close>: a row, the list of rows, an
  \<^verbatim>\<open>{error, message}\<close> object, the health report
  \<^verbatim>\<open>{status, timestamp, studentCount}\<close>, its failure \<^verbatim>\<open>{status, message}\<close>, or
  \<^verbatim>\<open>undefined\<close>. The serialisation to JSON text is not modelled.
\<close>

datatype json =
    Row student
  | Rows "student list"
  | Error string string
  | Health string string nat
  | HealthError string string
  | NoBody

record response =
  status :: nat
  body :: json

definition json_row :: "student option \<Rightarrow> json" where
  "json_row r = (case r of None \<Rightarrow> NoBody | Some x \<Rightarrow> Row x)"

definition bad_request :: response where
  "bad_request =
     \<lparr>status = 400,
      body = Error ''Bad Request'' ''All fields (name, email, age, gender) are required''\<rparr>"

definition not_found :: "string \<Rightarrow> response" where
  "not_found t =
     \<lparr>status = 404, body = Error ''Not Found'' (''Student with ID '' @ t @ '' not found'')\<rparr>"

text \<open>
  The \<^verbatim>\<open>catch\<close> block of the five CRUD handlers:
  \<^verbatim>\<open>console.error(<label>, err)\<close>, then status 500 with
  \<^verbatim>\<open>message: <prefix> + err.message\<close>.
\<close>

definition internal_error :: "string \<Rightarrow> string \<Rightarrow> string \<Rightarrow> state \<Rightarrow> response \<times> state" where
  "internal_error label msgp m s =
     (\<lparr>status = 500, body = Error ''Internal Server Error'' (msgp @ m)\<rparr>,
      s\<lparr>console := console s @ [(label, m)]\<rparr>)"

text \<open>\<^verbatim>\<open>app.post('/students', ...)\<close>\<close>

definition post_students ::
  "platform \<Rightarrow> req_body \<Rightarrow> string \<Rightarrow> fault list \<Rightarrow> state \<Rightarrow> response \<times> state" where
  "post_students pf b now fs s =
     (let n = field b ''name''; e = field b ''email''; a = field b ''age''; g = field b ''gender'' in
      if \<not> truthy n \<or> \<not> truthy e \<or> \<not> truthy a \<or> \<not> truthy g then (bad_request, s)
      else
        (case run_insert pf n e (parseInt pf a) g now (fault_at fs 0) s of
           Inl m \<Rightarrow> internal_error ''Error adding student:'' ''Failed to add student: '' m s
         | Inr (lastID, s') \<Rightarrow>
             (case get_by_rowid lastID (fault_at fs 1) s' of
                Inl m \<Rightarrow> internal_error ''Error adding student:'' ''Failed to add student: '' m s'
              | Inr st \<Rightarrow> (\<lparr>status = 201, body = json_row st\<rparr>, s'))))"

text \<open>\<^verbatim>\<open>app.get('/students', ...)\<close>\<close>

definition get_students :: "fault list \<Rightarrow> state \<Rightarrow> response \<times> state" where
  "get_students fs s =
     (case all_by_id_desc (fault_at fs 0) s of
        Inl m \<Rightarrow> internal_error ''Error fetching students:'' ''Failed to retrieve students: '' m s
      | Inr sts \<Rightarrow> (\<lparr>status = 200, body = Rows sts\<rparr>, s))"

text \<open>\<^verbatim>\<open>app.get('/students/:id', ...)\<close>\<close>

definition get_student :: "affinity \<Rightarrow> string \<Rightarrow> fault list \<Rightarrow> state \<Rightarrow> response \<times> state" where
  "get_student num t fs s =
     (case get_by_id num t (fault_at fs 0) s of
        Inl m \<Rightarrow>
          internal_error (''Error fetching student '' @ t @ '':'') ''Failed to retrieve student: '' m s
      | Inr None \<Rightarrow> (not_found t, s)
      | Inr (Some st) \<Rightarrow> (\<lparr>status = 200, body = Row st\<rparr>, s))"

text \<open>\<^verbatim>\<open>app.put('/students/:id', ...)\<close>\<close>

definition put_student ::
  "affinity \<Rightarrow> platform \<Rightarrow> string \<Rightarrow> req_body \<Rightarrow> fault list \<Rightarrow> state \<Rightarrow> response \<times> state" where
  "put_student num pf t b fs s =
     (let n = field b ''name''; e = field b ''email''; a = field b ''age''; g = field b ''gender'' in
      if \<not> truthy n \<or> \<not> truthy e \<or> \<not> truthy a \<or> \<not> truthy g then (bad_request, s)
      else
        (case run_update num pf n e (parseInt pf a) g t (fault_at fs 0) s of
           Inl m \<Rightarrow>
             internal_error (''Error updating student '' @ t @ '':'') ''Failed to update student: '' m s
         | Inr (changes, s') \<Rightarrow>
             if changes = 0 then (not_found t, s')
             else
               (case get_by_id num t (fault_at fs 1) s' of
                  Inl m \<Rightarrow>
                    internal_error (''Error updating student '' @ t @ '':'')
                      ''Failed to update student: '' m s'
                | Inr st \<Rightarrow> (\<lparr>status = 200, body = json_row st\<rparr>, s'))))"

text \<open>\<^verbatim>\<open>app.delete('/students/:id', ...)\<close>\<close>

definition delete_student :: "affinity \<Rightarrow> string \<Rightarrow> fault list \<Rightarrow> state \<Rightarrow> response \<times> state" where
  "delete_student num t fs s =
     (case get_by_id num t (fault_at fs 0) s of
        Inl m \<Rightarrow>
          internal_error (''Error deleting student '' @ t @ '':'') ''Failed to delete student: '' m s
      | Inr None \<Rightarrow> (not_found t, s)
      | Inr (Some st) \<Rightarrow>
          (case run_delete num t (fault_at fs 1) s of
             Inl m \<Rightarrow>
               internal_error (''Error deleting student '' @ t @ '':'')
                 ''Failed to delete student: '' m s
           | Inr s' \<Rightarrow> (\<lparr>status = 200, body = Row st\<rparr>, s')))"

text \<open>
  \<^verbatim>\<open>app.get('/health', ...)\<close>; \<open>now\<close> is \<^verbatim>\<open>new Date().toISOString()\<close>. Its
  \<^verbatim>\<open>catch\<close> block prints nothing.
\<close>

definition get_health :: "string \<Rightarrow> fault list \<Rightarrow> state \<Rightarrow> response \<times> state" where
  "get_health now fs s =
     (case get_count (fault_at fs 0) s of
        Inl m \<Rightarrow> (\<lparr>status = 500, body = HealthError ''error'' m\<rparr>, s)
      | Inr c \<Rightarrow> (\<lparr>status = 200, body = Health ''ok'' now c\<rparr>, s))"

text \<open>
  The last two middlewares. \<^verbatim>\<open>app.use((req, res) => ...)\<close> answers a request that
  no route matched; \<open>method\<close> and \<open>url\<close> are \<^verbatim>\<open>req.method\<close> and
  \<^verbatim>\<open>req.originalUrl\<close>.
\<close>

definition route_not_found :: "string \<Rightarrow> string \<Rightarrow> state \<Rightarrow> response \<times> state" where
  "route_not_found method url s =
     (\<lparr>status = 404,
       body = Error ''Not Found''
                (''The requested endpoint '' @ method @ '' '' @ url @ '' does not exist'')\<rparr>, s)"

text \<open>
  \<^verbatim>\<open>app.use((err, req, res, next) => ...)\<close> receives the errors passed to
  \<^verbatim>\<open>next\<close>. The route handlers catch their own, so what reaches it is an error
  raised before any route runs: that of \<^verbatim>\<open>express.json()\<close> on a body it cannot
  parse (malformed, too large), or that of the router on a path it cannot decode;
  \<open>e\<close> is its message.
\<close>

definition unhandled_error :: "string \<Rightarrow> state \<Rightarrow> response \<times> state" where
  "unhandled_error e s =
     (\<lparr>status = 500, body = Error ''Internal Server Error'' ''An unexpected error occurred''\<rparr>,
      s\<lparr>console := console s @ [(''Unhandled error:'', e)]\<rparr>)"

text \<open>
  The middleware chain. \<^verbatim>\<open>express.json()\<close> runs first: a request whose body it
  cannot parse, or whose path cannot be decoded (\<open>Unparsable\<close>, with the message of
  the error), goes to the error handler and reaches no route. A request carries what its handler reads from the environment:
  the clock and the faults of its driver calls. Handlers run one at a time.
\<close>

datatype request =
    POST_students req_body string "fault list"
  | GET_students "fault list"
  | GET_student string "fault list"
  | PUT_student string req_body "fault list"
  | DELETE_student string "fault list"
  | GET_health string "fault list"
  | Unmatched string string
  | Unparsable string

fun handle :: "affinity \<Rightarrow> platform \<Rightarrow> request \<Rightarrow> state \<Rightarrow> response \<times> state" where
  "handle num pf (POST_students b now fs) s = post_students pf b now fs s"
| "handle num pf (GET_students fs) s = get_students fs s"
| "handle num pf (GET_student t fs) s = get_student num t fs s"
| "handle num pf (PUT_student t b fs) s = put_student num pf t b fs s"
| "handle num pf (DELETE_student t fs) s = delete_student num t fs s"
| "handle num pf (GET_health now fs) s = get_health now fs s"
| "handle num pf (Unmatched method url) s = route_not_found method url s"
| "handle num pf (Unparsable e) s = unhandled_error e s"

fun serve :: "affinity \<Rightarrow> platform \<Rightarrow> request list \<Rightarrow> state \<Rightarrow> response list \<times> state" where
  "serve num pf [] s = ([], s)"
| "serve num pf (rq # rqs) s =
     (case handle num pf rq s of
        (r, s') \<Rightarrow> (case serve num pf rqs s' of (rs, s'') \<Rightarrow> (r # rs, s'')))"

text \<open>The state after \<^verbatim>\<open>initializeDatabase\<close> on a fresh file.\<close>

definition initial :: state where
  "initial = \<lparr>student_details = [], sqlite_sequence = 0, console = []\<rparr>"

section \<open>Vocabulary of the properties\<close>

text \<open>A field that is missing: absent, \<^verbatim>\<open>null\<close> or the empty string.\<close>

definition missing :: "jsval \<Rightarrow> bool" where
  "missing v = (v = JUndefined \<or> v = JNull \<or> v = JStr [])"

text \<open>A string that does not begin with a decimal digit.\<close>

definition no_leading_digit :: "string \<Rightarrow> bool" where
  "no_leading_digit a = (a \<noteq> [] \<and> takeWhile is_digit a = [])"

definition ids :: "state \<Rightarrow> int set" where
  "ids s = id_col ` set (student_details s)"

text \<open>The PRIMARY KEY constraint: no two rows share an id.\<close>

definition primary_key :: "state \<Rightarrow> bool" where
  "primary_key s = distinct (map id_col (student_details s))"

text \<open>
  What SQLite maintains for an AUTOINCREMENT table: the primary key, and a counter that
  is at least every rowid of the table.
\<close>

definition table_ok :: "state \<Rightarrow> bool" where
  "table_ok s = (primary_key s \<and> list_all (\<lambda>r. id_col r \<le> sqlite_sequence s) (student_details s))"

text \<open>
  All four fields of a body are present: the validation of POST and PUT passes.
\<close>

definition all_present :: "req_body \<Rightarrow> bool" where
  "all_present b =
     (truthy (field b ''name'') \<and> truthy (field b ''email'') \<and>
      truthy (field b ''age'') \<and> truthy (field b ''gender''))"

text \<open>
  The storage error of a request: the first driver call of its handler that is
  rejected, in the order the \<^verbatim>\<open>try\<close> block awaits them. The result is the message
  of that error and the state of the table at that moment; \<open>None\<close> when the handler
  makes no driver call or none is rejected.
\<close>

fun storage_error ::
  "affinity \<Rightarrow> platform \<Rightarrow> request \<Rightarrow> state \<Rightarrow> (string \<times> state) option" where
  "storage_error num pf (POST_students b now fs) s =
     (if \<not> all_present b then None
      else case run_insert pf (field b ''name'') (field b ''email'')
                  (parseInt pf (field b ''age'')) (field b ''gender'') now (fault_at fs 0) s of
             Inl m \<Rightarrow> Some (m, s)
           | Inr (k, s') \<Rightarrow>
               (case get_by_rowid k (fault_at fs 1) s' of
                  Inl m \<Rightarrow> Some (m, s')
                | Inr st \<Rightarrow> None))"
| "storage_error num pf (GET_students fs) s =
     (case all_by_id_desc (fault_at fs 0) s of Inl m \<Rightarrow> Some (m, s) | Inr sts \<Rightarrow> None)"
| "storage_error num pf (GET_student t fs) s =
     (case get_by_id num t (fault_at fs 0) s of Inl m \<Rightarrow> Some (m, s) | Inr st \<Rightarrow> None)"
| "storage_error num pf (PUT_student t b fs) s =
     (if \<not> all_present b then None
      else case run_update num pf (field b ''name'') (field b ''email'')
                  (parseInt pf (field b ''age'')) (field b ''gender'') t (fault_at fs 0) s of
             Inl m \<Rightarrow> Some (m, s)
           | Inr (changes, s') \<Rightarrow>
               if changes = 0 then None
               else (case get_by_id num t (fault_at fs 1) s' of
                       Inl m \<Rightarrow> Some (m, s')
                     | Inr st \<Rightarrow> None))"
| "storage_error num pf (DELETE_student t fs) s =
     (case get_by_id num t (fault_at fs 0) s of
        Inl m \<Rightarrow> Some (m, s)
      | Inr None \<Rightarrow> None
      | Inr (Some st) \<Rightarrow>
          (case run_delete num t (fault_at fs 1) s of Inl m \<Rightarrow> Some (m, s) | Inr s' \<Rightarrow> None))"
| "storage_error num pf (GET_health now fs) s =
     (case get_count (fault_at fs 0) s of Inl m \<Rightarrow> Some (m, s) | Inr c \<Rightarrow> None)"
| "storage_error num pf (Unmatched method url) s = None"
| "storage_error num pf (Unparsable e) s = None"

text \<open>
  The request reaches a driver call, and the environment rejects the first one with
  message \<open>m\<close>.
\<close>

fun first_call_rejected :: "request \<Rightarrow> string \<Rightarrow> bool" where
  "first_call_rejected (POST_students b now fs) m = (all_present b \<and> fault_at fs 0 = Some m)"
| "first_call_rejected (GET_students fs) m = (fault_at fs 0 = Some m)"
| "first_call_rejected (GET_student t fs) m = (fault_at fs 0 = Some m)"
| "first_call_rejected (PUT_student t b fs) m = (all_present b \<and> fault_at fs 0 = Some m)"
| "first_call_rejected (DELETE_student t fs) m = (fault_at fs 0 = Some m)"
| "first_call_rejected (GET_health now fs) m = (fault_at fs 0 = Some m)"
| "first_call_rejected (Unmatched method url) m = False"
| "first_call_rejected (Unparsable e) m = False"

text \<open>
  The \<^verbatim>\<open>catch\<close> block of each route, as a function of the error's message: the body
  it sends and the call of \<^verbatim>\<open>console.error\<close> it makes. The two middlewares have
  none.
\<close>

fun failure_body :: "request \<Rightarrow> string \<Rightarrow> json" where
  "failure_body (POST_students b now fs) m =
     Error ''Internal Server Error'' (''Failed to add student: '' @ m)"
| "failure_body (GET_students fs) m =
     Error ''Internal Server Error'' (''Failed to retrieve students: '' @ m)"
| "failure_body (GET_student t fs) m =
     Error ''Internal Server Error'' (''Failed to retrieve student: '' @ m)"
| "failure_body (PUT_student t b fs) m =
     Error ''Internal Server Error'' (''Failed to update student: '' @ m)"
| "failure_body (DELETE_student t fs) m =
     Error ''Internal Server Error'' (''Failed to delete student: '' @ m)"
| "failure_body (GET_health now fs) m = HealthError ''error'' m"
| "failure_body (Unmatched method url) m = NoBody"
| "failure_body (Unparsable e) m = NoBody"

fun failure_log :: "request \<Rightarrow> string \<Rightarrow> (string \<times> string) list" where
  "failure_log (POST_students b now fs) m = [(''Error adding student:'', m)]"
| "failure_log (GET_students fs) m = [(''Error fetching students:'', m)]"
| "failure_log (GET_student t fs) m = [(''Error fetching student '' @ t @ '':'', m)]"
| "failure_log (PUT_student t b fs) m = [(''Error updating student '' @ t @ '':'', m)]"
| "failure_log (DELETE_student t fs) m = [(''Error deleting student '' @ t @ '':'', m)]"
| "failure_log (GET_health now fs) m = []"
| "failure_log (Unmatched method url) m = []"
| "failure_log (Unparsable e) m = []"

text \<open>
  From \<open>s\<close> to \<open>s'\<close> the table stays well formed, the AUTOINCREMENT counter does not
  go down, and an id that \<open>s'\<close> has and \<open>s\<close> has not is above the counter of \<open>s\<close>.
\<close>

definition advances :: "state \<Rightarrow> state \<Rightarrow> bool" where
  "advances s s' =
     (table_ok s' \<and> sqlite_sequence s \<le> sqlite_sequence s' \<and>
      ids s' \<subseteq> ids s \<union> {k. sqlite_sequence s < k})"

subsection \<open>Example requests and states\<close>

text \<open>
  A platform for the examples. Its two functions are stand-ins: no example binds a
  number beyond 32 bits or converts one beyond the safe range.
\<close>

definition node :: platform where
  "node = \<lparr>number_string = show_int, real_text = (\<lambda>n. show_int n @ ''.0'')\<rparr>"

definition ana :: req_body where
  "ana = [''name'' \<mapsto> JStr ''Ana'', ''email'' \<mapsto> JStr ''a@x.com'',
          ''age'' \<mapsto> JStr ''21'', ''gender'' \<mapsto> JStr ''Female'']"

definition ana_row :: student where
  "ana_row = \<lparr>id_col = 1, name = ''Ana'', email = ''a@x.com'', age = Exact 21, gender = ''Female'',
              created_at = ''2024-01-01 00:00:00''\<rparr>"

definition one_student :: state where
  "one_student = \<lparr>student_details = [ana_row], sqlite_sequence = 1, console = []\<rparr>"

definition ben :: req_body where
  "ben = [''name'' \<mapsto> JStr ''Ben'', ''email'' \<mapsto> JStr ''b@x.com'',
          ''age'' \<mapsto> JNum 30, ''gender'' \<mapsto> JStr ''Male'']"

definition ben_row :: student where
  "ben_row = \<lparr>id_col = 2, name = ''Ben'', email = ''b@x.com'', age = Exact 30, gender = ''Male'',
              created_at = ''2024-01-02 00:00:00''\<rparr>"

definition two_students :: state where
  "two_students = \<lparr>student_details = [ana_row, ben_row], sqlite_sequence = 2, console = []\<rparr>"

definition five :: req_body where
  "five = ana(''name'' \<mapsto> JNum 5)"

definition minus_five :: req_body where
  "minus_five = ana(''age'' \<mapsto> JStr ''-5'')"

definition abc :: req_body where
  "abc = ana(''age'' \<mapsto> JStr ''abc'')"

definition io_error :: string where
  "io_error = ''SQLITE_IOERR: disk I/O error''"

section \<open>Evaluation and basic facts\<close>

lemmas js_eval = parseInt_def parseInt_str_def is_space_def is_digit_def digits_val_def
  digit_val_def show_int_def show_nat.simps digit_char_def field_def missing_def
  number_of_def safe_integer_def int32_def all_present_def

lemmas db_eval = run_insert_def run_update_def run_delete_def get_by_rowid_def get_by_id_def
  all_by_id_desc_def get_count_def fault_at_def new_rowid_def last_rowid_def MAX_ROWID_def
  matches_def decimal_id_def not_null_failed_def

lemmas handler_eval = post_students_def put_student_def get_student_def get_students_def
  delete_student_def get_health_def internal_error_def bad_request_def not_found_def json_row_def
  route_not_found_def unhandled_error_def

lemmas example_defs = ana_def ana_row_def one_student_def ben_def ben_row_def two_students_def
  initial_def five_def minus_five_def abc_def io_error_def node_def

lemma missing_not_truthy: "missing v \<Longrightarrow> \<not> truthy v"
  by (auto simp: missing_def)

lemma falsy_post:
  "\<not> truthy (field b ''name'') \<or> \<not> truthy (field b ''email'') \<or>
   \<not> truthy (field b ''age'') \<or> \<not> truthy (field b ''gender'')
   \<Longrightarrow> post_students pf b now fs s = (bad_request, s)"
  by (auto simp: post_students_def Let_def)

lemma falsy_put:
  "\<not> truthy (field b ''name'') \<or> \<not> truthy (field b ''email'') \<or>
   \<not> truthy (field b ''age'') \<or> \<not> truthy (field b ''gender'')
   \<Longrightarrow> put_student num pf t b fs s = (bad_request, s)"
  by (auto simp: put_student_def Let_def)

lemma fold_max_ge: "(a::int) \<le> fold max xs a \<and> (\<forall>x \<in> set xs. x \<le> fold max xs a)"
proof (induction xs arbitrary: a)
  case Nil
  show ?case by simp
next
  case (Cons x xs)
  have "max x a \<le> fold max xs (max x a)" using Cons.IH by blast
  then show ?case using Cons.IH [of "max x a"] by auto
qed

lemma last_rowid_ge: "last_rowid rows = Some v \<Longrightarrow> r \<in> set rows \<Longrightarrow> id_col r \<le> v"
  using fold_max_ge by (cases rows) (auto simp: last_rowid_def)

lemma last_rowid_None: "last_rowid rows = None \<Longrightarrow> rows = []"
  by (cases rows) (auto simp: last_rowid_def)

lemma new_rowid_fresh:
  assumes "new_rowid s = Some k" and "r \<in> set (student_details s)"
  shows "id_col r < k"
proof (cases "last_rowid (student_details s)")
  case None
  then have "student_details s = []" by (rule last_rowid_None)
  then show ?thesis using assms(2) by simp
next
  case (Some v)
  then have "id_col r \<le> v" using assms(2) last_rowid_ge by blast
  moreover have "v < k" using assms(1) Some by (auto simp: new_rowid_def split: if_splits)
  ultimately show ?thesis by simp
qed

lemma new_rowid_above_sequence: "new_rowid s = Some k \<Longrightarrow> sqlite_sequence s < k"
  by (auto simp: new_rowid_def split: option.splits if_splits)

lemma find_append_fresh:
  "\<forall>x \<in> set xs. \<not> P x \<Longrightarrow> P y \<Longrightarrow> find P (xs @ [y]) = Some y"
  by (induction xs) auto

lemma truthy_text_column: "truthy v \<Longrightarrow> \<exists>x. text_column pf v = Some x"
  by (cases v) auto

lemma run_insert_NaN:
  assumes "truthy n" "truthy e" "truthy g"
  shows "\<exists>m. run_insert pf n e None g now f s = Inl m \<and>
             (f = None \<and> new_rowid s \<noteq> None \<longrightarrow> m = not_null_failed ''age'')"
proof -
  obtain n' where n: "text_column pf n = Some n'" using assms(1) truthy_text_column by blast
  obtain e' where e: "text_column pf e = Some e'" using assms(2) truthy_text_column by blast
  obtain g' where g: "text_column pf g = Some g'" using assms(3) truthy_text_column by blast
  show ?thesis
  proof (cases f)
    case (Some m)
    then show ?thesis by (simp add: run_insert_def)
  next
    case None
    then show ?thesis
      by (cases "new_rowid s") (simp_all add: run_insert_def n e g)
  qed
qed

lemma run_insert_Inr:
  assumes "run_insert pf n e a g now f s = Inr (k, s')"
  shows "\<exists>r. s' = s\<lparr>student_details := student_details s @ [r], sqlite_sequence := k\<rparr>
           \<and> id_col r = k \<and> created_at r = now
           \<and> text_column pf n = Some (name r) \<and> text_column pf e = Some (email r) \<and> a = Some (age r)
           \<and> text_column pf g = Some (gender r) \<and> new_rowid s = Some k \<and> f = None"
  using assms by (auto simp: run_insert_def split: option.splits)

subsection \<open>A numeral is read back as its number\<close>

lemma below_ten: "(d::nat) < 10 \<Longrightarrow> d \<in> {0, 1, 2, 3, 4, 5, 6, 7, 8, 9}"
  by auto

lemma digit_char_is_digit: "d < 10 \<Longrightarrow> is_digit (digit_char d)"
  using below_ten [of d] by (auto simp: digit_char_def is_digit_def)

lemma digit_val_digit_char: "d < 10 \<Longrightarrow> digit_val (digit_char d) = d"
  using below_ten [of d] by (auto simp: digit_char_def digit_val_def)

lemma is_digit_plain: "is_digit c \<Longrightarrow> \<not> is_space c \<and> c \<noteq> CHR ''-'' \<and> c \<noteq> CHR ''+''"
  by (auto simp: is_digit_def is_space_def)

lemma show_nat_digits: "list_all is_digit (show_nat n) \<and> show_nat n \<noteq> []"
proof (induction n rule: show_nat.induct)
  case (1 n)
  show ?case
  proof (cases "n < 10")
    case True
    then show ?thesis by (simp add: show_nat.simps [of n] digit_char_is_digit)
  next
    case False
    then show ?thesis using "1.IH" by (simp add: show_nat.simps [of n] digit_char_is_digit)
  qed
qed

lemma digits_val_snoc: "digits_val (xs @ [c]) = 10 * digits_val xs + digit_val c"
  by (simp add: digits_val_def)

lemma digits_val_show_nat: "digits_val (show_nat n) = n"
proof (induction n rule: show_nat.induct)
  case (1 n)
  show ?case
  proof (cases "n < 10")
    case True
    then show ?thesis
      by (simp add: show_nat.simps [of n] digits_val_def digit_val_digit_char)
  next
    case False
    then have "digits_val (show_nat n) = 10 * digits_val (show_nat (n div 10)) + n mod 10"
      by (simp add: show_nat.simps [of n] digits_val_snoc digit_val_digit_char)
    then show ?thesis using "1.IH" False by simp
  qed
qed

lemma parseInt_str_show_nat: "parseInt_str (show_nat n) = Some (number_of (int n))"
proof -
  obtain c r where cr: "show_nat n = c # r" using show_nat_digits [of n] by (cases "show_nat n") auto
  have d: "list_all is_digit (c # r)" using show_nat_digits [of n] cr by simp
  then have c: "is_digit c" by simp
  have 1: "dropWhile is_space (c # r) = c # r" using c is_digit_plain by simp
  have 2: "takeWhile is_digit (c # r) = c # r" using d by (simp add: takeWhile_eq_all_conv list_all_iff)
  have 3: "c \<noteq> CHR ''-''" "c \<noteq> CHR ''+''" using c is_digit_plain by blast+
  have "digits_val (c # r) = n" using digits_val_show_nat [of n] cr by simp
  then show ?thesis
    unfolding parseInt_str_def cr 1 by (simp add: 2 3 del: takeWhile.simps dropWhile.simps)
qed

lemma minus_not_space: "\<not> is_space CHR ''-''"
  by (simp add: is_space_def)

lemma parseInt_str_show_int: "parseInt_str (show_int i) = Some (number_of i)"
proof (cases "i < 0")
  case False
  then show ?thesis using parseInt_str_show_nat [of "nat i"] by (simp add: show_int_def)
next
  case True
  have d: "list_all is_digit (show_nat (nat (- i)))" "show_nat (nat (- i)) \<noteq> []"
    using show_nat_digits by blast+
  have 2: "takeWhile is_digit (show_nat (nat (- i))) = show_nat (nat (- i))"
    using d by (simp add: takeWhile_eq_all_conv list_all_iff)
  have "parseInt_str (CHR ''-'' # show_nat (nat (- i)))
          = Some (number_of (- 1 * int (digits_val (show_nat (nat (- i))))))"
    unfolding parseInt_str_def using d(2) by (simp add: minus_not_space 2)
  then show ?thesis using True by (simp add: show_int_def digits_val_show_nat)
qed

lemma parseInt_safe_number: "safe_integer n \<Longrightarrow> parseInt pf (JNum n) = Some (Exact n)"
  by (simp add: parseInt_def parseInt_str_show_int number_of_def)

lemma parsed_age_echo:
  assumes "parseInt pf v = Some a" and "safe_integer n" and "v = JNum n \<or> v = JStr (show_int n)"
  shows "a = Exact n"
  using assms
  by (auto simp: parseInt_safe_number parseInt_def parseInt_str_show_int number_of_def)

lemma stored_string_echo: "text_column pf v = Some y \<Longrightarrow> v = JStr x \<Longrightarrow> y = x"
  by simp

section \<open>Creating a student\<close>

text \<open>
  C2. A POST /students or PUT /students/:id request in which one of the four fields is
  missing (absent, null or empty) is answered with status 400, and the state is the one
  before the request: no row is created or changed, so the list and its count are the
  same.
\<close>

theorem missing_field_is_400:
  assumes "missing (field b ''name'') \<or> missing (field b ''email'') \<or>
           missing (field b ''age'') \<or> missing (field b ''gender'')"
  shows "post_students pf b now fs s = (bad_request, s) \<and>
         put_student num pf t b fs s = (bad_request, s) \<and> status bad_request = 400"
  using assms by (auto simp: falsy_post falsy_put bad_request_def dest: missing_not_truthy)

theorem missing_field_is_400_witness:
  "missing (field (ana(''email'' := None)) ''email'') \<and>
   post_students node (ana(''email'' := None)) ''2024-01-02 00:00:00'' [] one_student
     = (bad_request, one_student) \<and>
   put_student decimal_id node ''1'' (ana(''email'' := None)) [] one_student
     = (bad_request, one_student) \<and>
   status bad_request = 400"
  using missing_field_is_400 [of "ana(''email'' := None)" node "''2024-01-02 00:00:00''" "[]"
      one_student decimal_id "''1''"]
  by (simp add: missing_def field_def ana_def)

text \<open>
  C1, as the code has it. A POST /students request whose four fields are all present
  (truthy), whose INSERT succeeds and whose read-back is not rejected, is answered with
  status 201 and the new row. Its id is the id of no row of the table before the
  request. Its name, email and gender equal the submitted values when these are
  strings; any other value comes back as the text the TEXT column stores for it. Its
  age is the number \<^verbatim>\<open>parseInt\<close> reads from the submitted age: the integer \<open>n\<close>
  itself when the age is the number \<open>n\<close> or its decimal numeral and \<open>n\<close> is a safe
  integer.
\<close>

theorem create_returns_new_record:
  assumes present: "truthy (field b ''name'')" "truthy (field b ''email'')"
                   "truthy (field b ''age'')" "truthy (field b ''gender'')"
    and insert: "run_insert pf (field b ''name'') (field b ''email'') (parseInt pf (field b ''age''))
                   (field b ''gender'') now (fault_at fs 0) s = Inr (k, s')"
    and readback: "fault_at fs 1 = None"
  shows "\<exists>r. post_students pf b now fs s = (\<lparr>status = 201, body = Row r\<rparr>, s')
           \<and> student_details s' = student_details s @ [r]
           \<and> id_col r \<notin> ids s
           \<and> created_at r = now
           \<and> (\<forall>x. field b ''name'' = JStr x \<longrightarrow> name r = x)
           \<and> (\<forall>x. field b ''email'' = JStr x \<longrightarrow> email r = x)
           \<and> (\<forall>x. field b ''gender'' = JStr x \<longrightarrow> gender r = x)
           \<and> (\<forall>n. safe_integer n \<and>
                    (field b ''age'' = JNum n \<or> field b ''age'' = JStr (show_int n))
                    \<longrightarrow> age r = Exact n)
           \<and> text_column pf (field b ''name'') = Some (name r)
           \<and> text_column pf (field b ''email'') = Some (email r)
           \<and> text_column pf (field b ''gender'') = Some (gender r)
           \<and> parseInt pf (field b ''age'') = Some (age r)"
proof -
  from run_insert_Inr [OF insert] obtain r where
    s': "s' = s\<lparr>student_details := student_details s @ [r], sqlite_sequence := k\<rparr>"
    and idr: "id_col r = k" and at: "created_at r = now"
    and cn: "text_column pf (field b ''name'') = Some (name r)"
    and ce: "text_column pf (field b ''email'') = Some (email r)"
    and ca: "parseInt pf (field b ''age'') = Some (age r)"
    and cg: "text_column pf (field b ''gender'') = Some (gender r)"
    and k: "new_rowid s = Some k"
    by blast
  have fresh: "\<forall>x \<in> set (student_details s). id_col x \<noteq> k"
    using new_rowid_fresh [OF k] by fastforce
  have "find (\<lambda>x. id_col x = k) (student_details s @ [r]) = Some r"
    using fresh idr by (intro find_append_fresh) auto
  then have get: "get_by_rowid k (fault_at fs 1) s' = Inr (Some r)"
    using readback s' by (simp add: get_by_rowid_def)
  have 1: "post_students pf b now fs s = (\<lparr>status = 201, body = Row r\<rparr>, s')"
    using present insert get by (simp add: post_students_def Let_def json_row_def)
  have 2: "student_details s' = student_details s @ [r]" using s' by simp
  have 3: "id_col r \<notin> ids s" using fresh idr by (auto simp: ids_def)
  have 4: "\<forall>x. field b ''name'' = JStr x \<longrightarrow> name r = x"
    using stored_string_echo [OF cn] by blast
  have 5: "\<forall>x. field b ''email'' = JStr x \<longrightarrow> email r = x"
    using stored_string_echo [OF ce] by blast
  have 6: "\<forall>x. field b ''gender'' = JStr x \<longrightarrow> gender r = x"
    using stored_string_echo [OF cg] by blast
  have 7: "\<forall>n. safe_integer n \<and>
                (field b ''age'' = JNum n \<or> field b ''age'' = JStr (show_int n))
                \<longrightarrow> age r = Exact n"
    using parsed_age_echo [OF ca] by blast
  show ?thesis
    using 1 2 3 at 4 5 6 7 cn ce cg ca by (intro exI [of _ r] conjI)
qed

theorem create_returns_new_record_witness:
  "post_students node ben ''2024-01-02 00:00:00'' [] one_student
     = (\<lparr>status = 201, body = Row ben_row\<rparr>, two_students) \<and>
   id_col ben_row \<notin> ids one_student \<and>
   field ben ''name'' = JStr ''Ben'' \<and> name ben_row = ''Ben'' \<and>
   field ben ''age'' = JNum 30 \<and> safe_integer 30 \<and> age ben_row = Exact 30"
proof -
  have p: "truthy (field ben ''name'')" "truthy (field ben ''email'')"
          "truthy (field ben ''age'')" "truthy (field ben ''gender'')"
    by (simp_all add: ben_def field_def)
  have i: "run_insert node (field ben ''name'') (field ben ''email'') (parseInt node (field ben ''age''))
             (field ben ''gender'') ''2024-01-02 00:00:00'' (fault_at [] 0) one_student
           = Inr (2, two_students)"
    by (simp add: js_eval db_eval example_defs)
  have g: "fault_at [] 1 = None" by (simp add: fault_at_def)
  have f: "field ben ''name'' = JStr ''Ben''" "field ben ''age'' = JNum 30" "safe_integer 30"
    by (simp_all add: ben_def field_def safe_integer_def)
  from create_returns_new_record [OF p i g] obtain r where
    r: "post_students node ben ''2024-01-02 00:00:00'' [] one_student
          = (\<lparr>status = 201, body = Row r\<rparr>, two_students)"
       "student_details two_students = student_details one_student @ [r]"
       "id_col r \<notin> ids one_student"
       "\<forall>x. field ben ''name'' = JStr x \<longrightarrow> name r = x"
       "\<forall>n. safe_integer n \<and>
            (field ben ''age'' = JNum n \<or> field ben ''age'' = JStr (show_int n))
            \<longrightarrow> age r = Exact n"
    by blast
  from r(2) have "r = ben_row" by (simp add: two_students_def one_student_def)
  with r f show ?thesis by simp
qed

text \<open>
  As written in the specification the property fails on a name sent as a number: the
  TEXT column stores the number 5 as the text 5, and that text is what the response
  carries.
\<close>

theorem create_number_name_counterexample:
  "truthy (field five ''name'') \<and> truthy (field five ''email'') \<and>
   truthy (field five ''age'') \<and> truthy (field five ''gender'') \<and>
   post_students node five ''2024-01-01 00:00:00'' [] initial =
     (\<lparr>status = 201, body = Row (ana_row\<lparr>name := ''5''\<rparr>)\<rparr>,
      \<lparr>student_details = [ana_row\<lparr>name := ''5''\<rparr>], sqlite_sequence = 1, console = []\<rparr>) \<and>
   field five ''name'' = JNum 5 \<and> JStr (name (ana_row\<lparr>name := ''5''\<rparr>)) \<noteq> field five ''name''"
  by (simp add: js_eval db_eval handler_eval example_defs)

text \<open>
  C9. A POST /students or PUT /students/:id request whose age is the number 0, or any
  other falsy value, is answered with status 400 whatever the other three fields are.
  No driver call is made: the answer and the unchanged state are the same for every
  fault schedule, also one that fails every call.
\<close>

theorem falsy_age_is_400:
  assumes "\<not> truthy (field b ''age'')"
  shows "post_students pf b now fs s = (bad_request, s) \<and>
         put_student num pf t b fs s = (bad_request, s) \<and> status bad_request = 400"
  using assms by (simp add: falsy_post falsy_put bad_request_def)

theorem falsy_age_is_400_witness:
  "field (ana(''age'' \<mapsto> JNum 0)) ''age'' = JNum 0 \<and>
   truthy (field (ana(''age'' \<mapsto> JNum 0)) ''name'') \<and>
   truthy (field (ana(''age'' \<mapsto> JNum 0)) ''email'') \<and>
   truthy (field (ana(''age'' \<mapsto> JNum 0)) ''gender'') \<and>
   post_students node (ana(''age'' \<mapsto> JNum 0)) ''2024-01-02 00:00:00'' [Some io_error, Some io_error]
     one_student = (bad_request, one_student) \<and>
   put_student decimal_id node ''1'' (ana(''age'' \<mapsto> JNum 0)) [Some io_error, Some io_error]
     one_student = (bad_request, one_student) \<and>
   status bad_request = 400"
  using falsy_age_is_400 [of "ana(''age'' \<mapsto> JNum 0)" node "''2024-01-02 00:00:00''"
      "[Some io_error, Some io_error]" one_student decimal_id "''1''"]
  by (simp add: field_def ana_def)

text \<open>
  C10, as the code has it. Take a POST /students request whose name, email and gender
  are present and whose age is a non-empty string in which \<^verbatim>\<open>parseInt\<close> finds no
  integer: after leading white space and an optional sign, no decimal digit follows.
  The validation passes, the age is NaN, the INSERT fails, and the response is 500, not
  400; the table and the AUTOINCREMENT counter are as before. When the driver raises
  no error of its own, the failure is the NOT NULL constraint on age.
\<close>

theorem unparsable_age_is_500:
  assumes present: "truthy (field b ''name'')" "truthy (field b ''email'')"
                   "truthy (field b ''gender'')"
    and age: "field b ''age'' = JStr a" "a \<noteq> []" "parseInt_str a = None"
  shows "truthy (field b ''age'') \<and> parseInt pf (field b ''age'') = None \<and>
         status (fst (post_students pf b now fs s)) = 500 \<and>
         student_details (snd (post_students pf b now fs s)) = student_details s \<and>
         sqlite_sequence (snd (post_students pf b now fs s)) = sqlite_sequence s \<and>
         (fault_at fs 0 = None \<and> new_rowid s \<noteq> None \<longrightarrow>
            body (fst (post_students pf b now fs s)) =
              Error ''Internal Server Error''
                (''Failed to add student: '' @ not_null_failed ''age''))"
proof -
  have t: "truthy (field b ''age'')" and p: "parseInt pf (field b ''age'') = None"
    using age by (simp_all add: parseInt_def)
  obtain m where m: "run_insert pf (field b ''name'') (field b ''email'') None (field b ''gender'')
                       now (fault_at fs 0) s = Inl m"
    and mm: "fault_at fs 0 = None \<and> new_rowid s \<noteq> None \<longrightarrow> m = not_null_failed ''age''"
    using run_insert_NaN [OF present] by blast
  have "post_students pf b now fs s =
          internal_error ''Error adding student:'' ''Failed to add student: '' m s"
    using present t p m by (simp add: post_students_def Let_def)
  then show ?thesis using t p mm by (auto simp: internal_error_def)
qed

theorem unparsable_age_is_500_witness:
  "status (fst (post_students node abc ''2024-01-02 00:00:00'' [] one_student)) = 500 \<and>
   student_details (snd (post_students node abc ''2024-01-02 00:00:00'' [] one_student)) = [ana_row] \<and>
   body (fst (post_students node abc ''2024-01-02 00:00:00'' [] one_student)) =
     Error ''Internal Server Error''
       ''Failed to add student: SQLITE_CONSTRAINT: NOT NULL constraint failed: student_details.age''"
proof -
  have h: "truthy (field abc ''name'')" "truthy (field abc ''email'')"
          "truthy (field abc ''gender'')"
          "field abc ''age'' = JStr ''abc''" "''abc'' \<noteq> []" "parseInt_str ''abc'' = None"
    by (simp_all add: abc_def ana_def js_eval)
  have e: "fault_at [] 0 = None \<and> new_rowid one_student \<noteq> None"
    by (simp add: db_eval example_defs)
  show ?thesis
    using unparsable_age_is_500 [OF h, of node "''2024-01-02 00:00:00''" "[]" one_student] e
    by (simp add: one_student_def not_null_failed_def)
qed

text \<open>
  As written in the specification the property fails on a signed numeral: the string
  -5 does not begin with a digit, yet \<^verbatim>\<open>parseInt\<close> reads -5 from it and the
  record is created with status 201.
\<close>

theorem signed_age_counterexample:
  "no_leading_digit ''-5'' \<and> field minus_five ''age'' = JStr ''-5'' \<and>
   post_students node minus_five ''2024-01-01 00:00:00'' [] initial =
     (\<lparr>status = 201, body = Row (ana_row\<lparr>age := Exact (- 5)\<rparr>)\<rparr>,
      \<lparr>student_details = [ana_row\<lparr>age := Exact (- 5)\<rparr>], sqlite_sequence = 1, console = []\<rparr>)"
  by (simp add: no_leading_digit_def js_eval db_eval handler_eval example_defs)

section \<open>Updating a student\<close>

lemma find_None_list_ex: "(find P xs = None) = (\<not> list_ex P xs)"
  by (induction xs) auto

lemma find_Some_holds: "find P xs = Some x \<Longrightarrow> P x \<and> x \<in> set xs"
  by (induction xs) (auto split: if_splits)

lemma find_map_same:
  assumes "\<And>x. P (f x) = P x"
  shows "find P (map f xs) = map_option f (find P xs)"
  using assms by (induction xs) auto

lemma filter_length_pos: "find P xs = Some x \<Longrightarrow> length (filter P xs) \<noteq> 0"
  by (induction xs) (auto split: if_splits)

lemma run_update_absent:
  "find (matches num t) (student_details s) = None \<Longrightarrow> run_update num pf n e a g t None s = Inr (0, s)"
  by (simp add: run_update_def find_None_list_ex)

lemma run_update_present:
  assumes "find (matches num t) (student_details s) = Some r0"
    and "text_column pf n = Some n'" "text_column pf e = Some e'" "text_column pf g = Some g'"
  shows "run_update num pf n e (Some a) g t None s =
           Inr (length (filter (matches num t) (student_details s)),
                s\<lparr>student_details :=
                     map (\<lambda>r. if matches num t r
                               then r\<lparr>name := n', email := e', age := a, gender := g'\<rparr> else r)
                         (student_details s)\<rparr>)"
proof -
  have "list_ex (matches num t) (student_details s)"
    using assms(1) find_None_list_ex [of "matches num t" "student_details s"] by simp
  then show ?thesis using assms(2-4) by (simp add: run_update_def)
qed

text \<open>
  C7. A PUT /students/:id request with all four fields present, for an id that no row
  has, is answered with status 404 and leaves the state as it was. (The UPDATE is not
  rejected by the driver; an age that is NaN is no error here, since no row is
  changed.)
\<close>

theorem update_absent_is_404:
  assumes present: "truthy (field b ''name'')" "truthy (field b ''email'')"
                   "truthy (field b ''age'')" "truthy (field b ''gender'')"
    and absent: "find (matches num t) (student_details s) = None"
    and nofault: "fault_at fs 0 = None"
  shows "put_student num pf t b fs s = (not_found t, s) \<and> status (not_found t) = 404"
  using present nofault run_update_absent [OF absent]
  by (simp add: put_student_def Let_def not_found_def)

theorem update_absent_is_404_witness:
  "put_student decimal_id node ''7'' abc [] two_students = (not_found ''7'', two_students) \<and>
   status (not_found ''7'') = 404"
proof -
  have p: "truthy (field abc ''name'')" "truthy (field abc ''email'')"
          "truthy (field abc ''age'')" "truthy (field abc ''gender'')"
    by (simp_all add: abc_def ana_def field_def)
  have a: "find (matches decimal_id ''7'') (student_details two_students) = None"
    by (simp add: js_eval db_eval example_defs)
  have f: "fault_at [] 0 = None" by (simp add: fault_at_def)
  show ?thesis using update_absent_is_404 [OF p a f] by simp
qed

text \<open>
  C3, as the code has it. Take a PUT /students/:id request with all four fields present
  whose age \<^verbatim>\<open>parseInt\<close> reads as a number, for an id that a row has, the two driver
  calls not being rejected. The response has status 200 and carries that row with the
  four fields overwritten. Its name, email and gender equal the submitted values when
  these are strings; any other value comes back as the text the TEXT column stores for
  it. Its age is the number read: the integer \<open>n\<close> itself when the age is the number
  \<open>n\<close> or its decimal numeral and \<open>n\<close> is a safe integer. Its id and created_at are
  those of the row before the update. Every row with another id is as before, and so
  are the AUTOINCREMENT counter and the console.
\<close>

theorem update_overwrites_one_record:
  assumes present: "truthy (field b ''name'')" "truthy (field b ''email'')"
                   "truthy (field b ''age'')" "truthy (field b ''gender'')"
    and exists: "find (matches num t) (student_details s) = Some r0"
    and age: "parseInt pf (field b ''age'') = Some a"
    and nofault: "fault_at fs 0 = None" "fault_at fs 1 = None"
  shows "\<exists>r s'. put_student num pf t b fs s = (\<lparr>status = 200, body = Row r\<rparr>, s')
           \<and> id_col r = id_col r0 \<and> created_at r = created_at r0
           \<and> (\<forall>x. field b ''name'' = JStr x \<longrightarrow> name r = x)
           \<and> (\<forall>x. field b ''email'' = JStr x \<longrightarrow> email r = x)
           \<and> (\<forall>x. field b ''gender'' = JStr x \<longrightarrow> gender r = x)
           \<and> (\<forall>n. safe_integer n \<and>
                    (field b ''age'' = JNum n \<or> field b ''age'' = JStr (show_int n))
                    \<longrightarrow> age r = Exact n)
           \<and> text_column pf (field b ''name'') = Some (name r)
           \<and> text_column pf (field b ''email'') = Some (email r)
           \<and> text_column pf (field b ''gender'') = Some (gender r)
           \<and> age r = a
           \<and> student_details s' =
                map (\<lambda>x. if id_col x = id_col r0
                          then x\<lparr>name := name r, email := email r, age := a, gender := gender r\<rparr>
                          else x) (student_details s)
           \<and> sqlite_sequence s' = sqlite_sequence s \<and> console s' = console s"
proof -
  obtain n' where n: "text_column pf (field b ''name'') = Some n'"
    using present(1) truthy_text_column by blast
  obtain e' where e: "text_column pf (field b ''email'') = Some e'"
    using present(2) truthy_text_column by blast
  obtain g' where g: "text_column pf (field b ''gender'') = Some g'"
    using present(4) truthy_text_column by blast
  let ?f = "\<lambda>x. if matches num t x then x\<lparr>name := n', email := e', age := a, gender := g'\<rparr> else x"
  let ?s' = "s\<lparr>student_details := map ?f (student_details s)\<rparr>"
  let ?r = "r0\<lparr>name := n', email := e', age := a, gender := g'\<rparr>"
  have m0: "matches num t r0" using exists find_Some_holds by fastforce
  then have key: "num t = Some (id_col r0)" by (simp add: matches_def)
  have same: "\<And>x. matches num t x = (id_col x = id_col r0)"
    using key by (auto simp: matches_def)
  have upd: "run_update num pf (field b ''name'') (field b ''email'') (Some a) (field b ''gender'') t
               (fault_at fs 0) s
             = Inr (length (filter (matches num t) (student_details s)), ?s')"
    using run_update_present [OF exists n e g] nofault(1) by simp
  have changes: "length (filter (matches num t) (student_details s)) \<noteq> 0"
    using exists by (rule filter_length_pos)
  have pres: "\<And>x. matches num t (?f x) = matches num t x"
    by (simp add: matches_def)
  have "find (matches num t) (map ?f (student_details s)) = map_option ?f (Some r0)"
    using find_map_same [of "matches num t" ?f, OF pres] exists by simp
  then have get: "get_by_id num t (fault_at fs 1) ?s' = Inr (Some ?r)"
    using nofault(2) m0 by (simp add: get_by_id_def)
  have 1: "put_student num pf t b fs s = (\<lparr>status = 200, body = Row ?r\<rparr>, ?s')"
    using present age upd changes get by (simp add: put_student_def Let_def json_row_def)
  have 2: "student_details ?s' =
                map (\<lambda>x. if id_col x = id_col r0
                          then x\<lparr>name := name ?r, email := email ?r, age := a, gender := gender ?r\<rparr>
                          else x) (student_details s)"
    by (simp add: same)
  have 3: "\<forall>x. field b ''name'' = JStr x \<longrightarrow> name ?r = x"
    using stored_string_echo [OF n] by simp
  have 4: "\<forall>x. field b ''email'' = JStr x \<longrightarrow> email ?r = x"
    using stored_string_echo [OF e] by simp
  have 5: "\<forall>x. field b ''gender'' = JStr x \<longrightarrow> gender ?r = x"
    using stored_string_echo [OF g] by simp
  have 6: "\<forall>n. safe_integer n \<and>
                (field b ''age'' = JNum n \<or> field b ''age'' = JStr (show_int n))
                \<longrightarrow> age ?r = Exact n"
    using parsed_age_echo [OF age] by simp
  show ?thesis
    using 1 2 3 4 5 6 n e g
    by (intro exI [of _ ?r] exI [of _ ?s'] conjI) simp_all
qed

theorem update_overwrites_one_record_witness:
  "put_student decimal_id node ''1'' ben [] two_students =
     (\<lparr>status = 200, body = Row (ben_row\<lparr>id_col := 1, created_at := created_at ana_row\<rparr>)\<rparr>,
      two_students\<lparr>student_details :=
        [ben_row\<lparr>id_col := 1, created_at := created_at ana_row\<rparr>, ben_row]\<rparr>)"
proof -
  have p: "truthy (field ben ''name'')" "truthy (field ben ''email'')"
          "truthy (field ben ''age'')" "truthy (field ben ''gender'')"
    by (simp_all add: ben_def field_def)
  have x: "find (matches decimal_id ''1'') (student_details two_students) = Some ana_row"
    by (simp add: js_eval db_eval example_defs)
  have a: "parseInt node (field ben ''age'') = Some (Exact 30)"
    by (simp add: js_eval ben_def to_string.simps)
  have f: "fault_at [] 0 = None" "fault_at [] 1 = None" by (simp_all add: fault_at_def)
  from update_overwrites_one_record [OF p x a f] obtain r s' where
    r: "put_student decimal_id node ''1'' ben [] two_students = (\<lparr>status = 200, body = Row r\<rparr>, s')"
       "id_col r = id_col ana_row" "created_at r = created_at ana_row"
       "\<forall>x. field ben ''name'' = JStr x \<longrightarrow> name r = x"
       "\<forall>x. field ben ''email'' = JStr x \<longrightarrow> email r = x"
       "age r = Exact 30"
       "\<forall>x. field ben ''gender'' = JStr x \<longrightarrow> gender r = x"
       "student_details s' =
                map (\<lambda>x. if id_col x = id_col ana_row
                          then x\<lparr>name := name r, email := email r, age := Exact 30, gender := gender r\<rparr>
                          else x) (student_details two_students)"
       "sqlite_sequence s' = sqlite_sequence two_students"
       "console s' = console two_students"
    by blast
  have r_eq: "r = ben_row\<lparr>id_col := 1, created_at := created_at ana_row\<rparr>"
    using r(2-7) by (cases r) (simp add: field_def example_defs)
  have "s' = two_students\<lparr>student_details :=
               [ben_row\<lparr>id_col := 1, created_at := created_at ana_row\<rparr>, ben_row]\<rparr>"
    using r(8-10) unfolding r_eq by (cases s') (simp add: example_defs)
  then show ?thesis using r(1) r_eq by simp
qed

text \<open>
  As written in the specification the property fails when the age is present but not
  a number: the UPDATE breaks the NOT NULL constraint and the response is 500, the row
  unchanged. It also fails on a name sent as a number, which comes back as text.
\<close>

theorem update_counterexample:
  "truthy (field abc ''name'') \<and> truthy (field abc ''email'') \<and>
   truthy (field abc ''age'') \<and> truthy (field abc ''gender'') \<and>
   find (matches decimal_id ''1'') (student_details one_student) = Some ana_row \<and>
   status (fst (put_student decimal_id node ''1'' abc [] one_student)) = 500 \<and>
   student_details (snd (put_student decimal_id node ''1'' abc [] one_student)) = [ana_row] \<and>
   put_student decimal_id node ''1'' five [] one_student =
     (\<lparr>status = 200, body = Row (ana_row\<lparr>name := ''5''\<rparr>)\<rparr>,
      one_student\<lparr>student_details := [ana_row\<lparr>name := ''5''\<rparr>]\<rparr>) \<and>
   JStr (name (ana_row\<lparr>name := ''5''\<rparr>)) \<noteq> field five ''name''"
  by (simp add: js_eval db_eval handler_eval example_defs)

section \<open>Deleting and listing\<close>

lemma find_filter_not: "find P (filter (\<lambda>x. \<not> P x) xs) = None"
  by (induction xs) auto

text \<open>
  C4. A DELETE /students/:id request for an id that a row has (the two driver calls not
  being rejected) is answered with status 200 and that row as it was stored before the
  removal; the rows with other ids stay. In the state after it, every
  GET /students/:id for the same id is answered with status 404.
\<close>

theorem delete_returns_record_then_404:
  assumes exists: "find (matches num t) (student_details s) = Some r"
    and nofault: "fault_at fs 0 = None" "fault_at fs 1 = None"
  shows "\<exists>s'. delete_student num t fs s = (\<lparr>status = 200, body = Row r\<rparr>, s')
           \<and> r \<in> set (student_details s)
           \<and> student_details s' = filter (\<lambda>x. id_col x \<noteq> id_col r) (student_details s)
           \<and> (\<forall>fs'. fault_at fs' 0 = None \<longrightarrow> get_student num t fs' s' = (not_found t, s'))
           \<and> status (not_found t) = 404"
proof -
  let ?s' = "s\<lparr>student_details := filter (\<lambda>x. \<not> matches num t x) (student_details s)\<rparr>"
  have m: "matches num t r" and mem: "r \<in> set (student_details s)"
    using exists find_Some_holds by fastforce+
  then have same: "\<And>x. (\<not> matches num t x) = (id_col x \<noteq> id_col r)"
    by (auto simp: matches_def)
  have "delete_student num t fs s = (\<lparr>status = 200, body = Row r\<rparr>, ?s')"
    using exists nofault by (simp add: delete_student_def get_by_id_def run_delete_def)
  moreover have "\<forall>fs'. fault_at fs' 0 = None \<longrightarrow> get_student num t fs' ?s' = (not_found t, ?s')"
    by (simp add: get_student_def get_by_id_def find_filter_not)
  moreover have "student_details ?s' = filter (\<lambda>x. id_col x \<noteq> id_col r) (student_details s)"
    by (simp add: same)
  ultimately show ?thesis using mem by (intro exI [of _ ?s']) (simp add: not_found_def)
qed

theorem delete_returns_record_then_404_witness:
  "delete_student decimal_id ''1'' [] two_students
     = (\<lparr>status = 200, body = Row ana_row\<rparr>, two_students\<lparr>student_details := [ben_row]\<rparr>) \<and>
   get_student decimal_id ''1'' [] (two_students\<lparr>student_details := [ben_row]\<rparr>)
     = (not_found ''1'', two_students\<lparr>student_details := [ben_row]\<rparr>) \<and>
   status (not_found ''1'') = 404"
proof -
  have x: "find (matches decimal_id ''1'') (student_details two_students) = Some ana_row"
    by (simp add: js_eval db_eval example_defs)
  have f: "fault_at [] 0 = None" "fault_at [] 1 = None" by (simp_all add: fault_at_def)
  from delete_returns_record_then_404 [OF x f] obtain s' where
    d: "delete_student decimal_id ''1'' [] two_students = (\<lparr>status = 200, body = Row ana_row\<rparr>, s')"
    and r: "student_details s' = filter (\<lambda>x. id_col x \<noteq> id_col ana_row) (student_details two_students)"
    and g: "\<forall>fs'. fault_at fs' 0 = None \<longrightarrow> get_student decimal_id ''1'' fs' s' = (not_found ''1'', s')"
    and n: "status (not_found ''1'') = 404"
    by blast
  have "s' = snd (delete_student decimal_id ''1'' [] two_students)" using d by simp
  also have "\<dots> = two_students\<lparr>student_details := [ben_row]\<rparr>"
    by (simp add: js_eval db_eval handler_eval example_defs)
  finally have s': "s' = two_students\<lparr>student_details := [ben_row]\<rparr>" .
  show ?thesis using d g f(1) n unfolding s' by simp
qed

lemma sorted_desc:
  assumes "distinct (map id_col rows)"
  shows "sorted_wrt (\<lambda>x y. id_col x > id_col y) (rev (sort_key id_col rows))"
proof -
  have "sorted (map id_col (sort_key id_col rows))" by (rule sorted_sort_key)
  moreover have "distinct (map id_col (sort_key id_col rows))"
  proof -
    have "mset (map id_col (sort_key id_col rows)) = mset (map id_col rows)" by simp
    then show ?thesis using assms mset_eq_imp_distinct_iff by blast
  qed
  ultimately have "sorted_wrt (<) (map id_col (sort_key id_col rows))"
    by (simp add: strict_sorted_iff)
  then show ?thesis by (simp add: sorted_wrt_rev sorted_wrt_map)
qed

text \<open>
  C5. In every state of the table (no two rows share an id), GET /students whose query
  is not rejected is answered with status 200 and all the rows, each once, nothing cut
  off, in strictly descending order of id.
\<close>

theorem list_is_complete_and_descending:
  assumes "primary_key s" and "fault_at fs 0 = None"
  shows "\<exists>rows. get_students fs s = (\<lparr>status = 200, body = Rows rows\<rparr>, s)
           \<and> mset rows = mset (student_details s)
           \<and> length rows = length (student_details s)
           \<and> sorted_wrt (\<lambda>x y. id_col x > id_col y) rows"
  using assms sorted_desc [of "student_details s"]
  by (simp add: get_students_def all_by_id_desc_def primary_key_def)

theorem list_is_complete_and_descending_witness:
  "primary_key two_students \<and>
   get_students [] two_students = (\<lparr>status = 200, body = Rows [ben_row, ana_row]\<rparr>, two_students)"
proof -
  have p: "primary_key two_students" by (simp add: primary_key_def example_defs)
  have f: "fault_at [] 0 = None" by (simp add: fault_at_def)
  from list_is_complete_and_descending [OF p f] obtain rows where
    g: "get_students [] two_students = (\<lparr>status = 200, body = Rows rows\<rparr>, two_students)"
    by blast
  have "Rows rows = body (fst (get_students [] two_students))" using g by simp
  also have "\<dots> = Rows [ben_row, ana_row]"
    by (simp add: db_eval handler_eval example_defs)
  finally show ?thesis using g p by simp
qed

section \<open>Storage errors\<close>

lemma post_storage_error:
  assumes "storage_error num pf (POST_students b now fs) s = Some (m, s')"
  shows "post_students pf b now fs s =
           (\<lparr>status = 500, body = failure_body (POST_students b now fs) m\<rparr>,
            s'\<lparr>console := console s' @ failure_log (POST_students b now fs) m\<rparr>)"
proof -
  have ok: "all_present b" using assms by (simp split: if_splits)
  show ?thesis
  proof (cases "run_insert pf (field b ''name'') (field b ''email'')
                  (parseInt pf (field b ''age'')) (field b ''gender'') now (fault_at fs 0) s")
    case (Inl x)
    then show ?thesis using assms ok
      by (simp add: post_students_def Let_def all_present_def internal_error_def)
  next
    case (Inr p)
    obtain k s1 where p: "p = (k, s1)" by (cases p)
    show ?thesis
    proof (cases "get_by_rowid k (fault_at fs 1) s1")
      case (Inl x)
      then show ?thesis using assms ok Inr p
        by (simp add: post_students_def Let_def all_present_def internal_error_def)
    next
      case r: (Inr st)
      then show ?thesis using assms ok Inr p by simp
    qed
  qed
qed

lemma post_500_storage:
  assumes "status (fst (post_students pf b now fs s)) = 500"
  shows "\<exists>m s'. storage_error num pf (POST_students b now fs) s = Some (m, s')"
proof -
  have ok: "all_present b"
    using assms by (auto simp: post_students_def Let_def bad_request_def all_present_def
        split: if_splits)
  show ?thesis
  proof (cases "run_insert pf (field b ''name'') (field b ''email'')
                  (parseInt pf (field b ''age'')) (field b ''gender'') now (fault_at fs 0) s")
    case (Inl x)
    then show ?thesis using ok by simp
  next
    case (Inr p)
    obtain k s1 where p: "p = (k, s1)" by (cases p)
    show ?thesis
    proof (cases "get_by_rowid k (fault_at fs 1) s1")
      case (Inl x)
      then show ?thesis using ok Inr p by simp
    next
      case r: (Inr st)
      then have "status (fst (post_students pf b now fs s)) = 201"
        using ok Inr p by (simp add: post_students_def Let_def all_present_def)
      then show ?thesis using assms by simp
    qed
  qed
qed

lemma put_storage_error:
  assumes "storage_error num pf (PUT_student t b fs) s = Some (m, s')"
  shows "put_student num pf t b fs s =
           (\<lparr>status = 500, body = failure_body (PUT_student t b fs) m\<rparr>,
            s'\<lparr>console := console s' @ failure_log (PUT_student t b fs) m\<rparr>)"
proof -
  have ok: "all_present b" using assms by (simp split: if_splits)
  show ?thesis
  proof (cases "run_update num pf (field b ''name'') (field b ''email'')
                  (parseInt pf (field b ''age'')) (field b ''gender'') t (fault_at fs 0) s")
    case (Inl x)
    then show ?thesis using assms ok
      by (simp add: put_student_def Let_def all_present_def internal_error_def)
  next
    case (Inr p)
    obtain c s1 where p: "p = (c, s1)" by (cases p)
    show ?thesis
    proof (cases "c = 0")
      case True
      then show ?thesis using assms ok Inr p by simp
    next
      case False
      show ?thesis
      proof (cases "get_by_id num t (fault_at fs 1) s1")
        case (Inl x)
        then show ?thesis using assms ok Inr p False
          by (simp add: put_student_def Let_def all_present_def internal_error_def)
      next
        case r: (Inr st)
        then show ?thesis using assms ok Inr p False by simp
      qed
    qed
  qed
qed

lemma put_500_storage:
  assumes "status (fst (put_student num pf t b fs s)) = 500"
  shows "\<exists>m s'. storage_error num pf (PUT_student t b fs) s = Some (m, s')"
proof -
  have ok: "all_present b"
    using assms by (auto simp: put_student_def Let_def bad_request_def all_present_def
        split: if_splits)
  show ?thesis
  proof (cases "run_update num pf (field b ''name'') (field b ''email'')
                  (parseInt pf (field b ''age'')) (field b ''gender'') t (fault_at fs 0) s")
    case (Inl x)
    then show ?thesis using ok by simp
  next
    case (Inr p)
    obtain c s1 where p: "p = (c, s1)" by (cases p)
    show ?thesis
    proof (cases "c = 0")
      case True
      then have "put_student num pf t b fs s = (not_found t, s1)"
        using ok Inr p by (simp add: put_student_def Let_def all_present_def)
      then show ?thesis using assms by (simp add: not_found_def)
    next
      case False
      show ?thesis
      proof (cases "get_by_id num t (fault_at fs 1) s1")
        case (Inl x)
        then show ?thesis using ok Inr p False by simp
      next
        case r: (Inr st)
        then have "status (fst (put_student num pf t b fs s)) = 200"
          using ok Inr p False by (simp add: put_student_def Let_def all_present_def)
        then show ?thesis using assms by simp
      qed
    qed
  qed
qed

lemma get_students_storage_error:
  "storage_error num pf (GET_students fs) s = Some (m, s') \<Longrightarrow>
     get_students fs s =
       (\<lparr>status = 500, body = failure_body (GET_students fs) m\<rparr>,
        s'\<lparr>console := console s' @ failure_log (GET_students fs) m\<rparr>)"
  by (cases "all_by_id_desc (fault_at fs 0) s") (simp_all add: get_students_def internal_error_def)

lemma get_students_500_storage:
  "status (fst (get_students fs s)) = 500 \<Longrightarrow>
     \<exists>m s'. storage_error num pf (GET_students fs) s = Some (m, s')"
  by (cases "all_by_id_desc (fault_at fs 0) s") (simp_all add: get_students_def)

lemma get_student_storage_error:
  "storage_error num pf (GET_student t fs) s = Some (m, s') \<Longrightarrow>
     get_student num t fs s =
       (\<lparr>status = 500, body = failure_body (GET_student t fs) m\<rparr>,
        s'\<lparr>console := console s' @ failure_log (GET_student t fs) m\<rparr>)"
  by (cases "get_by_id num t (fault_at fs 0) s") (simp_all add: get_student_def internal_error_def)

lemma get_student_500_storage:
  "status (fst (get_student num t fs s)) = 500 \<Longrightarrow>
     \<exists>m s'. storage_error num pf (GET_student t fs) s = Some (m, s')"
  by (cases "get_by_id num t (fault_at fs 0) s")
    (simp_all add: get_student_def not_found_def split: option.splits)

lemma get_health_storage_error:
  "storage_error num pf (GET_health now fs) s = Some (m, s') \<Longrightarrow>
     get_health now fs s =
       (\<lparr>status = 500, body = failure_body (GET_health now fs) m\<rparr>,
        s'\<lparr>console := console s' @ failure_log (GET_health now fs) m\<rparr>)"
  by (cases "get_count (fault_at fs 0) s") (simp_all add: get_health_def)

lemma get_health_500_storage:
  "status (fst (get_health now fs s)) = 500 \<Longrightarrow>
     \<exists>m s'. storage_error num pf (GET_health now fs) s = Some (m, s')"
  by (cases "get_count (fault_at fs 0) s") (simp_all add: get_health_def)

lemma delete_storage_error:
  assumes "storage_error num pf (DELETE_student t fs) s = Some (m, s')"
  shows "delete_student num t fs s =
           (\<lparr>status = 500, body = failure_body (DELETE_student t fs) m\<rparr>,
            s'\<lparr>console := console s' @ failure_log (DELETE_student t fs) m\<rparr>)"
proof (cases "get_by_id num t (fault_at fs 0) s")
  case (Inl x)
  then show ?thesis using assms by (simp add: delete_student_def internal_error_def)
next
  case (Inr st)
  show ?thesis
  proof (cases st)
    case None
    then show ?thesis using assms Inr by simp
  next
    case (Some r)
    then show ?thesis using assms Inr
      by (cases "run_delete num t (fault_at fs 1) s")
        (simp_all add: delete_student_def internal_error_def)
  qed
qed

lemma delete_500_storage:
  assumes "status (fst (delete_student num t fs s)) = 500"
  shows "\<exists>m s'. storage_error num pf (DELETE_student t fs) s = Some (m, s')"
proof (cases "get_by_id num t (fault_at fs 0) s")
  case (Inl x)
  then show ?thesis by simp
next
  case (Inr st)
  show ?thesis
  proof (cases st)
    case None
    then show ?thesis using assms Inr by (simp add: delete_student_def not_found_def)
  next
    case (Some r)
    then show ?thesis using assms Inr
      by (cases "run_delete num t (fault_at fs 1) s") (simp_all add: delete_student_def)
  qed
qed

lemma rejected_call_is_storage_error:
  "first_call_rejected rq m \<Longrightarrow> storage_error num pf rq s = Some (m, s)"
  by (cases rq)
    (simp_all add: run_insert_def run_update_def get_by_id_def all_by_id_desc_def get_count_def)

lemma storage_error_answer:
  assumes "storage_error num pf rq s = Some (m, s')"
  shows "handle num pf rq s =
           (\<lparr>status = 500, body = failure_body rq m\<rparr>,
            s'\<lparr>console := console s' @ failure_log rq m\<rparr>)"
  using assms post_storage_error put_storage_error get_students_storage_error
    get_student_storage_error get_health_storage_error delete_storage_error
  by (cases rq) simp_all

text \<open>
  C6, as the code has it. When a request fails with a storage error, that is, a driver
  call of its handler is rejected with message \<open>m\<close>, the response has status 500,
  and its body is the one the \<^verbatim>\<open>catch\<close> block of the route builds from that error:
  the fixed label (Internal Server Error, or the status error of /health) and a message
  that is the route's fixed prefix followed by \<open>m\<close>. The five CRUD routes also pass
  the error to \<^verbatim>\<open>console.error\<close>; /health prints nothing. This holds in particular
  when the environment rejects the first driver call. Conversely, a response with
  status 500 comes from such a storage error, or else from the global error handler on
  a request that could not be parsed: only that one is generic, its detail going to the
  console alone.
\<close>

theorem storage_error_message_reaches_client:
  "(first_call_rejected rq m \<longrightarrow>
      storage_error num pf rq s = Some (m, s) \<and>
      handle num pf rq s =
        (\<lparr>status = 500, body = failure_body rq m\<rparr>,
         s\<lparr>console := console s @ failure_log rq m\<rparr>)) \<and>
   (storage_error num pf rq s = Some (m, s') \<longrightarrow>
      handle num pf rq s =
        (\<lparr>status = 500, body = failure_body rq m\<rparr>,
         s'\<lparr>console := console s' @ failure_log rq m\<rparr>)) \<and>
   (status (fst (handle num pf rq s)) = 500 \<longrightarrow>
      (\<exists>x y. storage_error num pf rq s = Some (x, y)) \<or>
      (\<exists>e. rq = Unparsable e \<and>
           handle num pf rq s =
             (\<lparr>status = 500,
               body = Error ''Internal Server Error'' ''An unexpected error occurred''\<rparr>,
              s\<lparr>console := console s @ [(''Unhandled error:'', e)]\<rparr>)))"
proof (intro conjI impI)
  assume "first_call_rejected rq m"
  then show "storage_error num pf rq s = Some (m, s)" by (rule rejected_call_is_storage_error)
next
  assume "first_call_rejected rq m"
  then have "storage_error num pf rq s = Some (m, s)" by (rule rejected_call_is_storage_error)
  then show "handle num pf rq s =
        (\<lparr>status = 500, body = failure_body rq m\<rparr>,
         s\<lparr>console := console s @ failure_log rq m\<rparr>)"
    by (rule storage_error_answer)
next
  assume "storage_error num pf rq s = Some (m, s')"
  then show "handle num pf rq s =
        (\<lparr>status = 500, body = failure_body rq m\<rparr>,
         s'\<lparr>console := console s' @ failure_log rq m\<rparr>)"
    by (rule storage_error_answer)
next
  assume "status (fst (handle num pf rq s)) = 500"
  then show "(\<exists>x y. storage_error num pf rq s = Some (x, y)) \<or>
      (\<exists>e. rq = Unparsable e \<and>
           handle num pf rq s =
             (\<lparr>status = 500,
               body = Error ''Internal Server Error'' ''An unexpected error occurred''\<rparr>,
              s\<lparr>console := console s @ [(''Unhandled error:'', e)]\<rparr>))"
    using post_500_storage get_students_500_storage get_student_500_storage put_500_storage
      delete_500_storage get_health_500_storage
    by (cases rq) (simp_all add: route_not_found_def unhandled_error_def)
qed

theorem storage_error_message_reaches_client_witness:
  "first_call_rejected (PUT_student ''1'' ben [Some io_error]) io_error \<and>
   handle decimal_id node (PUT_student ''1'' ben [Some io_error]) one_student =
     (\<lparr>status = 500,
       body = Error ''Internal Server Error'' (''Failed to update student: '' @ io_error)\<rparr>,
      one_student\<lparr>console := [(''Error updating student 1:'', io_error)]\<rparr>) \<and>
   status (fst (handle decimal_id node (Unparsable ''Unexpected token'') one_student)) = 500 \<and>
   body (fst (handle decimal_id node (Unparsable ''Unexpected token'') one_student)) =
     Error ''Internal Server Error'' ''An unexpected error occurred''"
proof -
  have r: "first_call_rejected (PUT_student ''1'' ben [Some io_error]) io_error"
    by (simp add: all_present_def field_def ben_def fault_at_def)
  have p: "status (fst (handle decimal_id node (Unparsable ''Unexpected token'') one_student)) = 500"
    by (simp add: unhandled_error_def)
  note t = storage_error_message_reaches_client
  have "storage_error decimal_id node (PUT_student ''1'' ben [Some io_error]) one_student
          = Some (io_error, one_student)"
    using t [of "PUT_student ''1'' ben [Some io_error]" io_error decimal_id node one_student]
      r by blast
  then have "handle decimal_id node (PUT_student ''1'' ben [Some io_error]) one_student =
        (\<lparr>status = 500, body = failure_body (PUT_student ''1'' ben [Some io_error]) io_error\<rparr>,
         one_student\<lparr>console := console one_student @
            failure_log (PUT_student ''1'' ben [Some io_error]) io_error\<rparr>)"
    using t [of "PUT_student ''1'' ben [Some io_error]" io_error decimal_id node one_student
        one_student] by blast
  moreover have "body (fst (handle decimal_id node (Unparsable ''Unexpected token'') one_student)) =
     Error ''Internal Server Error'' ''An unexpected error occurred''"
    using t [of "Unparsable ''Unexpected token''" io_error decimal_id node one_student
        one_student] p by auto
  ultimately show ?thesis using r p by (simp add: one_student_def)
qed

text \<open>
  As written in the specification the property fails: the message of the driver's
  error is part of the body the client receives, for an I/O error on POST and for a
  constraint failure on PUT.
\<close>

theorem error_detail_counterexample:
  "post_students node ana ''2024-01-01 00:00:00'' [Some ''SQLITE_IOERR: disk I/O error''] initial =
     (\<lparr>status = 500,
       body = Error ''Internal Server Error''
                (''Failed to add student: '' @ ''SQLITE_IOERR: disk I/O error'')\<rparr>,
      initial\<lparr>console := [(''Error adding student:'', ''SQLITE_IOERR: disk I/O error'')]\<rparr>) \<and>
   put_student decimal_id node ''1'' abc [] one_student =
     (\<lparr>status = 500,
       body = Error ''Internal Server Error''
                (''Failed to update student: '' @
                 ''SQLITE_CONSTRAINT: NOT NULL constraint failed: student_details.age'')\<rparr>,
      one_student\<lparr>console := [(''Error updating student 1:'',
         ''SQLITE_CONSTRAINT: NOT NULL constraint failed: student_details.age'')]\<rparr>)"
  by (simp add: js_eval db_eval handler_eval example_defs)

section \<open>Identity of records\<close>

lemma advances_refl: "table_ok s \<Longrightarrow> advances s s"
  by (simp add: advances_def)

lemma advances_trans:
  assumes "advances s s'" and "advances s' s''"
  shows "advances s s''"
  using assms unfolding advances_def by auto

lemma advances_console: "advances s s' \<Longrightarrow> advances s (s'\<lparr>console := c\<rparr>)"
  by (simp add: advances_def table_ok_def primary_key_def ids_def)

lemma advances_internal_error:
  "advances s s' \<Longrightarrow> advances s (snd (internal_error lp mp m s'))"
  by (simp add: internal_error_def advances_console)

lemma table_ok_ids_le: "table_ok s \<Longrightarrow> k \<in> ids s \<Longrightarrow> k \<le> sqlite_sequence s"
  by (auto simp: table_ok_def ids_def list_all_iff)

lemma run_insert_advances:
  assumes "table_ok s" and "run_insert pf n e a g now f s = Inr (k, s')"
  shows "advances s s'"
proof -
  from run_insert_Inr [OF assms(2)] obtain r where
    s': "s' = s\<lparr>student_details := student_details s @ [r], sqlite_sequence := k\<rparr>"
    and idr: "id_col r = k" and k: "new_rowid s = Some k"
    by blast
  have above: "sqlite_sequence s < k" using k by (rule new_rowid_above_sequence)
  have fresh: "\<forall>x \<in> set (student_details s). id_col x < k"
    using new_rowid_fresh [OF k] by blast
  have "distinct (map id_col (student_details s @ [r]))"
    using assms(1) fresh idr by (auto simp: table_ok_def primary_key_def)
  moreover have "list_all (\<lambda>x. id_col x \<le> k) (student_details s @ [r])"
    using fresh idr by (auto simp: list_all_iff intro: less_imp_le)
  moreover have "ids s' \<subseteq> ids s \<union> {j. sqlite_sequence s < j}"
    using s' idr above by (auto simp: ids_def)
  ultimately show ?thesis using s' above
    by (simp add: advances_def table_ok_def primary_key_def)
qed

lemma run_update_advances:
  assumes "table_ok s" and "run_update num pf n e a g t f s = Inr (c, s')"
  shows "advances s s'"
proof -
  have "s' = s \<or> (\<exists>h. s' = s\<lparr>student_details := map h (student_details s)\<rparr> \<and>
                       (\<forall>x. id_col (h x) = id_col x))"
    using assms(2)
    by (auto simp: run_update_def split: option.splits if_splits
          intro!: exI [of _ "\<lambda>r. if matches num t r then r\<lparr>name := _, email := _, age := _, gender := _\<rparr> else r"])
  then show ?thesis
  proof
    assume "s' = s"
    then show ?thesis using assms(1) by (simp add: advances_refl)
  next
    assume "\<exists>h. s' = s\<lparr>student_details := map h (student_details s)\<rparr> \<and>
                (\<forall>x. id_col (h x) = id_col x)"
    then obtain h where s': "s' = s\<lparr>student_details := map h (student_details s)\<rparr>"
      and h: "\<And>x. id_col (h x) = id_col x" by blast
    have "id_col \<circ> h = id_col" using h by (simp add: fun_eq_iff)
    then show ?thesis using assms(1) s' h
      by (simp add: advances_def table_ok_def primary_key_def ids_def list_all_iff image_image)
  qed
qed

lemma run_delete_advances:
  assumes "table_ok s" and "run_delete num t f s = Inr s'"
  shows "advances s s'"
proof -
  have s': "s' = s\<lparr>student_details := filter (\<lambda>r. \<not> matches num t r) (student_details s)\<rparr>"
    using assms(2) by (auto simp: run_delete_def split: option.splits)
  show ?thesis using assms(1) unfolding s'
    by (auto simp: advances_def table_ok_def primary_key_def ids_def list_all_iff distinct_map_filter)
qed

lemma post_advances: "table_ok s \<Longrightarrow> advances s (snd (post_students pf b now fs s))"
  by (auto simp: post_students_def Let_def advances_refl advances_internal_error
      split: sum.splits dest: run_insert_advances)

lemma put_advances: "table_ok s \<Longrightarrow> advances s (snd (put_student num pf t b fs s))"
  by (auto simp: put_student_def Let_def advances_refl advances_internal_error
      split: sum.splits dest: run_update_advances)

lemma delete_advances: "table_ok s \<Longrightarrow> advances s (snd (delete_student num t fs s))"
  by (auto simp: delete_student_def advances_refl advances_internal_error
      split: sum.splits option.splits dest: run_delete_advances)

lemma get_students_advances: "table_ok s \<Longrightarrow> advances s (snd (get_students fs s))"
  by (auto simp: get_students_def advances_refl advances_internal_error split: sum.splits)

lemma get_student_advances: "table_ok s \<Longrightarrow> advances s (snd (get_student num t fs s))"
  by (auto simp: get_student_def advances_refl advances_internal_error
      split: sum.splits option.splits)

lemma get_health_advances: "table_ok s \<Longrightarrow> advances s (snd (get_health now fs s))"
  by (auto simp: get_health_def advances_refl split: sum.splits)

lemma handle_advances: "table_ok s \<Longrightarrow> advances s (snd (handle num pf rq s))"
  by (cases rq)
    (simp_all add: post_advances put_advances delete_advances get_students_advances
       get_student_advances get_health_advances route_not_found_def unhandled_error_def
       advances_refl advances_console)

lemma serve_advances: "table_ok s \<Longrightarrow> advances s (snd (serve num pf rqs s))"
proof (induction rqs arbitrary: s)
  case Nil
  then show ?case by (simp add: advances_refl)
next
  case (Cons rq rqs)
  have 1: "advances s (snd (handle num pf rq s))" using Cons.prems by (rule handle_advances)
  then have "table_ok (snd (handle num pf rq s))" by (simp add: advances_def)
  then have 2: "advances (snd (handle num pf rq s)) (snd (serve num pf rqs (snd (handle num pf rq s))))"
    by (rule Cons.IH)
  have "snd (serve num pf (rq # rqs) s) = snd (serve num pf rqs (snd (handle num pf rq s)))"
    by (simp split: prod.splits)
  then show ?case using advances_trans [OF 1 2] by simp
qed

text \<open>
  C8. Start from a well-formed table, such as the empty one, and serve any sequence of
  requests. In every state reached no two records share an id; and an id that a record
  had in some state reached, and that no record has in a later state (the record was
  deleted), is the id of no record in any state after that.
\<close>

theorem ids_unique_and_never_reused:
  assumes "table_ok s0"
    and "serve num pf rqs1 s0 = (rs1, s1)"
    and "serve num pf rqs2 s1 = (rs2, s2)"
    and "serve num pf rqs3 s2 = (rs3, s3)"
  shows "primary_key s1 \<and> (\<forall>k. k \<in> ids s1 \<and> k \<notin> ids s2 \<longrightarrow> k \<notin> ids s3)"
proof -
  have a1: "advances s0 s1" using serve_advances [OF assms(1), of num pf rqs1] assms(2) by simp
  then have ok1: "table_ok s1" by (simp add: advances_def)
  have a2: "advances s1 s2" using serve_advances [OF ok1, of num pf rqs2] assms(3) by simp
  then have ok2: "table_ok s2" by (simp add: advances_def)
  have a3: "advances s2 s3" using serve_advances [OF ok2, of num pf rqs3] assms(4) by simp
  have "k \<notin> ids s3" if k: "k \<in> ids s1" "k \<notin> ids s2" for k
  proof -
    have "k \<le> sqlite_sequence s1" using ok1 k(1) by (rule table_ok_ids_le)
    also have "\<dots> \<le> sqlite_sequence s2" using a2 by (simp add: advances_def)
    finally have "\<not> sqlite_sequence s2 < k" by simp
    then show ?thesis using a3 k(2) by (auto simp: advances_def)
  qed
  then show ?thesis using ok1 by (auto simp: table_ok_def)
qed

theorem ids_unique_and_never_reused_witness:
  "table_ok initial \<and>
   serve decimal_id node [POST_students ana ''2024-01-01 00:00:00'' []] initial
     = ([\<lparr>status = 201, body = Row ana_row\<rparr>], one_student) \<and>
   serve decimal_id node [DELETE_student ''1'' []] one_student
     = ([\<lparr>status = 200, body = Row ana_row\<rparr>], one_student\<lparr>student_details := []\<rparr>) \<and>
   serve decimal_id node [POST_students ben ''2024-01-02 00:00:00'' []] (one_student\<lparr>student_details := []\<rparr>)
     = ([\<lparr>status = 201, body = Row ben_row\<rparr>], two_students\<lparr>student_details := [ben_row]\<rparr>) \<and>
   primary_key one_student \<and> 1 \<in> ids one_student \<and> 1 \<notin> ids (one_student\<lparr>student_details := []\<rparr>) \<and>
   1 \<notin> ids (two_students\<lparr>student_details := [ben_row]\<rparr>)"
proof -
  have t: "table_ok initial" by (simp add: table_ok_def primary_key_def initial_def)
  have s1: "serve decimal_id node [POST_students ana ''2024-01-01 00:00:00'' []] initial
     = ([\<lparr>status = 201, body = Row ana_row\<rparr>], one_student)"
    by (simp add: js_eval db_eval handler_eval example_defs)
  have s2: "serve decimal_id node [DELETE_student ''1'' []] one_student
     = ([\<lparr>status = 200, body = Row ana_row\<rparr>], one_student\<lparr>student_details := []\<rparr>)"
    by (simp add: js_eval db_eval handler_eval example_defs)
  have s3: "serve decimal_id node [POST_students ben ''2024-01-02 00:00:00'' []] (one_student\<lparr>student_details := []\<rparr>)
     = ([\<lparr>status = 201, body = Row ben_row\<rparr>], two_students\<lparr>student_details := [ben_row]\<rparr>)"
    by (simp add: js_eval db_eval handler_eval example_defs)
  have i: "1 \<in> ids one_student" "1 \<notin> ids (one_student\<lparr>student_details := []\<rparr>)"
    by (simp_all add: ids_def example_defs)
  from ids_unique_and_never_reused [OF t s1 s2 s3] i
  have "primary_key one_student" "1 \<notin> ids (two_students\<lparr>student_details := [ben_row]\<rparr>)"
    by blast+
  then show ?thesis using t s1 s2 s3 i by simp
qed

end
